theory Spec2Isabelle
  imports Complex_Main "HOL-Library.Sublist"
begin

section \<open>Project Elysium: the two storyteller programs\<close>

text \<open>
  The repository holds two programs of the same shape: \<^verbatim>\<open>game_engine.py\<close>, a console
  game, and \<^verbatim>\<open>main.py\<close>, a FastAPI application that plays the game over a WebSocket.
  Each has a completion client (\<^verbatim>\<open>call_gemini_api\<close>), an image-prompt deriver, an
  illustration client (\<^verbatim>\<open>generate_image_with_stable_diffusion\<close>) and a session loop.

  Everything the programs do goes through the network, the terminal or the socket, so
  the embedding makes the environment explicit: a function takes the trace of events so
  far and returns its result with the extended trace. What \<^verbatim>\<open>requests.post\<close> answers is
  given by an oracle of the environment, a function of the trace up to and including the
  request; a theorem quantified over the environment holds whatever the services answer.
  A Python exception is a value: a call returns \<open>Inl e\<close> when it raises \<open>e\<close> and
  \<open>Inr v\<close> when it returns \<open>v\<close>.

  Not modelled: what is written to standard output (but a \<^verbatim>\<open>print\<close> that raises is), a
  failure to write an image file, the registry of active connections in \<^verbatim>\<open>main.py\<close>, and
  the serving of static files. Strings are lists of \<^typ>\<open>char\<close>, read as code points
  below 256.
\<close>

subsection \<open>Python values decoded from JSON\<close>

datatype json =
    JNull
  | JBool bool
  | JNum rat
  | JStr string
  | JArr "json list"
  | JObj "(string \<times> json) list"

text \<open>
  \<open>JNum\<close> is a decoded number, an \<^verbatim>\<open>int\<close> or a finite \<^verbatim>\<open>float\<close>, by its value.
  \<open>JObj\<close> lists the entries of a decoded \<^verbatim>\<open>dict\<close>; a key is looked up with \<^const>\<open>map_of\<close>.
\<close>

datatype exn =
    AttributeError
  | KeyError
  | IndexError
  | TypeError
  | JSONDecodeError
  | UnidentifiedImageError

text \<open>Truth value of an object, as \<^verbatim>\<open>if x:\<close> tests it.\<close>

fun truthy :: "json \<Rightarrow> bool" where
  "truthy JNull = False"
| "truthy (JBool b) = b"
| "truthy (JNum q) = (q \<noteq> 0)"
| "truthy (JStr s) = (s \<noteq> [])"
| "truthy (JArr xs) = (xs \<noteq> [])"
| "truthy (JObj kvs) = (kvs \<noteq> [])"

text \<open>\<^verbatim>\<open>x.get(k, default)\<close>: only a \<^verbatim>\<open>dict\<close> has the method.\<close>

fun dict_get :: "json \<Rightarrow> string \<Rightarrow> json \<Rightarrow> exn + json" where
  "dict_get (JObj kvs) k dflt = Inr (case map_of kvs k of None \<Rightarrow> dflt | Some v \<Rightarrow> v)"
| "dict_get _ k dflt = Inl AttributeError"

text \<open>\<^verbatim>\<open>x['k']\<close> with a string key.\<close>

fun subscript_key :: "json \<Rightarrow> string \<Rightarrow> exn + json" where
  "subscript_key (JObj kvs) k = (case map_of kvs k of None \<Rightarrow> Inl KeyError | Some v \<Rightarrow> Inr v)"
| "subscript_key _ k = Inl TypeError"

text \<open>
  \<^verbatim>\<open>x[0]\<close>: the first element of a list, the first character of a string (as a string
  of length one); a \<^verbatim>\<open>dict\<close> decoded from JSON has string keys only, so \<^verbatim>\<open>0\<close> is a missing key.
\<close>

fun subscript_0 :: "json \<Rightarrow> exn + json" where
  "subscript_0 (JArr []) = Inl IndexError"
| "subscript_0 (JArr (x # xs)) = Inr x"
| "subscript_0 (JStr []) = Inl IndexError"
| "subscript_0 (JStr (c # s)) = Inr (JStr [c])"
| "subscript_0 (JObj kvs) = Inl KeyError"
| "subscript_0 _ = Inl TypeError"

definition and_then :: "exn + 'a \<Rightarrow> ('a \<Rightarrow> exn + 'b) \<Rightarrow> exn + 'b" where
  "and_then r f = (case r of Inl e \<Rightarrow> Inl e | Inr v \<Rightarrow> f v)"

text \<open>
  \<^verbatim>\<open>int(x)\<close>: a number is truncated toward zero, \<^verbatim>\<open>True\<close> is 1; \<^verbatim>\<open>None\<close>, a list and a
  \<^verbatim>\<open>dict\<close> raise \<^verbatim>\<open>TypeError\<close>. What \<^verbatim>\<open>int\<close> makes of a string is a parameter of the
  environment. \<open>None\<close> stands for a raise.
\<close>

fun py_int :: "(string \<Rightarrow> int option) \<Rightarrow> json \<Rightarrow> int option" where
  "py_int int_of_str (JNum q) = Some (if 0 \<le> q then \<lfloor>q\<rfloor> else \<lceil>q\<rceil>)"
| "py_int int_of_str (JBool b) = Some (if b then 1 else 0)"
| "py_int int_of_str (JStr s) = int_of_str s"
| "py_int int_of_str _ = None"

subsection \<open>String methods\<close>

text \<open>\<^verbatim>\<open>s.replace(old, new)\<close> for a pattern \<^verbatim>\<open>old\<close> of one character.\<close>

definition replace_char :: "char \<Rightarrow> string \<Rightarrow> string \<Rightarrow> string" where
  "replace_char old new s = concat (map (\<lambda>c. if c = old then new else [c]) s)"

text \<open>
  The characters \<^verbatim>\<open>str.strip()\<close> removes, below 256: tab to carriage return, the four
  separators \<^verbatim>\<open>0x1c\<close> to \<^verbatim>\<open>0x1f\<close>, the space, \<^verbatim>\<open>0x85\<close> and \<^verbatim>\<open>0xa0\<close>.
\<close>

definition isspace :: "char \<Rightarrow> bool" where
  "isspace c \<longleftrightarrow> c \<in> set [CHR 0x09, CHR 0x0A, CHR 0x0B, CHR 0x0C, CHR 0x0D,
     CHR 0x1C, CHR 0x1D, CHR 0x1E, CHR 0x1F, CHR 0x20, CHR 0x85, CHR 0xA0]"

definition strip :: "string \<Rightarrow> string" where
  "strip s = rev (dropWhile isspace (rev (dropWhile isspace s)))"

text \<open>
  \<^verbatim>\<open>s.upper()\<close> on the letters \<^verbatim>\<open>a\<close> to \<^verbatim>\<open>z\<close>; every other character is kept. The
  console loop only compares the result with \<^verbatim>\<open>QUIT\<close>, \<^verbatim>\<open>A\<close> and \<^verbatim>\<open>B\<close>, and no other
  character below 256 becomes one of their letters.
\<close>

definition upper_char :: "char \<Rightarrow> char" where
  "upper_char c =
     (case map_of (zip ''abcdefghijklmnopqrstuvwxyz'' ''ABCDEFGHIJKLMNOPQRSTUVWXYZ'') c of
        None \<Rightarrow> c | Some d \<Rightarrow> d)"

definition upper :: "string \<Rightarrow> string" where
  "upper s = map upper_char s"

text \<open>\<^verbatim>\<open>sep.join(xs)\<close>.\<close>

fun join :: "string \<Rightarrow> string list \<Rightarrow> string" where
  "join sep [] = []"
| "join sep [x] = x"
| "join sep (x # y # ys) = x @ sep @ join sep (y # ys)"

subsection \<open>The environment\<close>

type_synonym image = string

datatype content =
    Json_text json
  | Image_data image
  | Other_bytes

text \<open>
  The body of a response by what it decodes to: \<^verbatim>\<open>response.json()\<close> returns the value
  of a \<open>Json_text\<close> body and raises on the others; \<^verbatim>\<open>Image.open\<close> returns the image of
  an \<open>Image_data\<close> body and raises \<^verbatim>\<open>UnidentifiedImageError\<close> on the others.
\<close>

record response =
  status_code :: nat
  body :: content

text \<open>
  \<^verbatim>\<open>requests.post\<close> either returns a response or raises a \<^verbatim>\<open>RequestException\<close>, whose
  attribute \<^verbatim>\<open>response\<close> is \<^verbatim>\<open>None\<close> or a response.
\<close>

datatype post_result =
    Post_raises "response option"
  | Post_returns response

datatype event =
    Post string "(string \<times> string) list" json
  | Sleep int
  | Save string image
  | Accept
  | Send json

type_synonym trace = "event list"

record env =
  GEMINI_API_KEY :: string
  HUGGINGFACE_API_KEY :: string
  requests_post :: "trace \<Rightarrow> post_result"
  str_of :: "json \<Rightarrow> string"
  int_of_str :: "string \<Rightarrow> int option"
  png_base64 :: "image \<Rightarrow> string"
  sleep_limit :: int

text \<open>
  \<open>requests_post E tr\<close> is the answer to the request that is the last event of \<open>tr\<close>.
  \<open>str_of\<close> is \<^verbatim>\<open>str(x)\<close> for a value that is not a string, \<open>png_base64\<close> the
  base64 text of an image saved as PNG: library functions taken as parameters.
  \<open>sleep_limit\<close> is the largest number of seconds \<^verbatim>\<open>time.sleep\<close> takes: it raises
  \<^verbatim>\<open>OverflowError\<close> on an integer whose nanoseconds do not fit its timestamp, which is
  beyond 9223372036 seconds where the timestamp has 64 bits.
\<close>

text \<open>A value inside an f-string: a string is itself, anything else goes through \<^verbatim>\<open>str\<close>.\<close>

definition fmt :: "env \<Rightarrow> json \<Rightarrow> string" where
  "fmt E v = (case v of JStr s \<Rightarrow> s | _ \<Rightarrow> str_of E v)"

definition response_json :: "response \<Rightarrow> json option" where
  "response_json r = (case body r of Json_text j \<Rightarrow> Some j | _ \<Rightarrow> None)"

definition image_open :: "response \<Rightarrow> image option" where
  "image_open r = (case body r of Image_data i \<Rightarrow> Some i | _ \<Rightarrow> None)"

text \<open>
  \<^verbatim>\<open>response.ok\<close>, which is also the truth value of a response object: false exactly when
  \<^verbatim>\<open>raise_for_status()\<close> raises, that is for a status from 400 to 599.
\<close>

definition response_ok :: "response \<Rightarrow> bool" where
  "response_ok r \<longleftrightarrow> \<not> (400 \<le> status_code r \<and> status_code r < 600)"

text \<open>
  The two lines every client starts with, \<^verbatim>\<open>response = requests.post(...)\<close> and
  \<^verbatim>\<open>response.raise_for_status()\<close>: \<open>Inl\<close> is the \<^verbatim>\<open>RequestException\<close> raised, by its
  attribute \<^verbatim>\<open>response\<close>; the \<^verbatim>\<open>HTTPError\<close> of \<^verbatim>\<open>raise_for_status\<close> carries the response.
\<close>

definition post_checked ::
  "env \<Rightarrow> trace \<Rightarrow> string \<Rightarrow> (string \<times> string) list \<Rightarrow> json \<Rightarrow> (response option + response) \<times> trace" where
  "post_checked E tr url headers payload =
     (let tr' = tr @ [Post url headers payload] in
      case requests_post E tr' of
        Post_raises r \<Rightarrow> (Inl r, tr')
      | Post_returns r \<Rightarrow> (if response_ok r then Inr r else Inl (Some r), tr'))"

subsection \<open>Completion client\<close>

definition GEMINI_API_URL :: string where
  "GEMINI_API_URL = ''https://generativelanguage.googleapis.com/v1beta/models/gemini-2.5-flash-preview-05-20:generateContent?key=''"

definition STABLE_DIFFUSION_API_URL :: string where
  "STABLE_DIFFUSION_API_URL = ''https://api-inference.huggingface.co/models/stabilityai/stable-diffusion-xl-base-1.0''"

definition gemini_payload :: "string \<Rightarrow> json" where
  "gemini_payload prompt =
     JObj [(''contents'', JArr [JObj [(''parts'', JArr [JObj [(''text'', JStr prompt)]])]])]"

text \<open>\<^verbatim>\<open>data['candidates'][0]['content']['parts'][0]['text']\<close>\<close>

definition first_candidate_text :: "json \<Rightarrow> exn + json" where
  "first_candidate_text data =
     and_then (subscript_key data ''candidates'') (\<lambda>cs.
     and_then (subscript_0 cs) (\<lambda>c.
     and_then (subscript_key c ''content'') (\<lambda>ct.
     and_then (subscript_key ct ''parts'') (\<lambda>ps.
     and_then (subscript_0 ps) (\<lambda>p.
     subscript_key p ''text'')))))"

text \<open>
  \<^verbatim>\<open>call_gemini_api\<close> of \<^verbatim>\<open>game_engine.py\<close>. The \<^verbatim>\<open>except\<close> clause catches
  \<^verbatim>\<open>RequestException\<close> only: the exception of \<^verbatim>\<open>requests.post\<close>, the \<^verbatim>\<open>HTTPError\<close> of
  \<^verbatim>\<open>raise_for_status\<close> and the \<^verbatim>\<open>JSONDecodeError\<close> of \<^verbatim>\<open>response.json()\<close> (a
  \<^verbatim>\<open>RequestException\<close> since requests 2.27). What \<^verbatim>\<open>data.get\<close> and the subscripts
  raise is not caught.
\<close>

definition call_gemini_api_console :: "env \<Rightarrow> trace \<Rightarrow> string \<Rightarrow> (exn + json) \<times> trace" where
  "call_gemini_api_console E tr prompt =
     (case post_checked E tr (GEMINI_API_URL @ GEMINI_API_KEY E)
             [(''Content-Type'', ''application/json'')] (gemini_payload prompt) of
        (Inl e, tr') \<Rightarrow> (Inr (JStr ''Error: Could not connect to the AI.''), tr')
      | (Inr r, tr') \<Rightarrow>
          (case response_json r of
             None \<Rightarrow> (Inr (JStr ''Error: Could not connect to the AI.''), tr')
           | Some data \<Rightarrow>
               (case dict_get data ''candidates'' JNull of
                  Inl ex \<Rightarrow> (Inl ex, tr')
                | Inr cs \<Rightarrow>
                    if truthy cs then (first_candidate_text data, tr')
                    else (Inr (JStr ''Error: The AI returned an unexpected text response.''), tr'))))"

text \<open>
  \<^verbatim>\<open>call_gemini_api\<close> of \<^verbatim>\<open>main.py\<close>: one sentinel, returned after the \<^verbatim>\<open>try\<close> statement
  both when the exception was caught and when there is no candidate.
  \<^verbatim>\<open>call_gemini_api_async\<close> runs it in the executor and awaits its result.
\<close>

definition call_gemini_api_push :: "env \<Rightarrow> trace \<Rightarrow> string \<Rightarrow> (exn + json) \<times> trace" where
  "call_gemini_api_push E tr prompt =
     (case post_checked E tr (GEMINI_API_URL @ GEMINI_API_KEY E)
             [(''Content-Type'', ''application/json'')] (gemini_payload prompt) of
        (Inl e, tr') \<Rightarrow> (Inr (JStr ''Error: The AI storyteller is currently unavailable.''), tr')
      | (Inr r, tr') \<Rightarrow>
          (case response_json r of
             None \<Rightarrow> (Inr (JStr ''Error: The AI storyteller is currently unavailable.''), tr')
           | Some data \<Rightarrow>
               (case dict_get data ''candidates'' JNull of
                  Inl ex \<Rightarrow> (Inl ex, tr')
                | Inr cs \<Rightarrow>
                    if truthy cs then (first_candidate_text data, tr')
                    else (Inr (JStr ''Error: The AI storyteller is currently unavailable.''), tr'))))"

definition call_gemini_api_async :: "env \<Rightarrow> trace \<Rightarrow> string \<Rightarrow> (exn + json) \<times> trace" where
  "call_gemini_api_async E tr prompt = call_gemini_api_push E tr prompt"

subsection \<open>Image-prompt deriver\<close>

text \<open>\<^verbatim>\<open>visual_prompt.replace('\n', ' ').replace('*', '').strip()\<close>\<close>

definition clean_prompt :: "string \<Rightarrow> string" where
  "clean_prompt visual_prompt =
     strip (replace_char (CHR ''*'') [] (replace_char (CHR 0x0A) '' '' visual_prompt))"

definition visual_prompt_request :: "env \<Rightarrow> json \<Rightarrow> string" where
  "visual_prompt_request E story_text =
     ''You are an AI assistant that creates safe, simple, and concise image generation prompts. '' @
     ''Based on the following fantasy story scene, create a very short, clean, descriptive prompt. '' @
     ''It must be under 20 words. '' @
     ''Style: beautiful digital art, fantasy, cinematic lighting. '' @
     ''Scene: '' @ [CHR 0x27] @ fmt E story_text @ [CHR 0x27]"

text \<open>
  \<^verbatim>\<open>generate_visual_prompt\<close> of \<^verbatim>\<open>game_engine.py\<close>. The scene goes into the f-string
  whatever it is; \<^verbatim>\<open>replace\<close> is a method of strings only.
\<close>

definition generate_visual_prompt :: "env \<Rightarrow> trace \<Rightarrow> json \<Rightarrow> (exn + string) \<times> trace" where
  "generate_visual_prompt E tr story_text =
     (case call_gemini_api_console E tr (visual_prompt_request E story_text) of
        (Inl ex, tr') \<Rightarrow> (Inl ex, tr')
      | (Inr visual_prompt, tr') \<Rightarrow>
          (case visual_prompt of
             JStr s \<Rightarrow> (Inr (clean_prompt s), tr')
           | _ \<Rightarrow> (Inl AttributeError, tr')))"

definition visual_prompt_request_async :: "env \<Rightarrow> json \<Rightarrow> string" where
  "visual_prompt_request_async E story_text =
     ''You are an AI assistant creating image prompts. Based on the following scene, '' @
     ''create a short, descriptive prompt under 20 words. '' @
     ''Style: beautiful digital art, fantasy, cinematic lighting. '' @
     ''Scene: '' @ [CHR 0x27] @ fmt E story_text @ [CHR 0x27]"

text \<open>\<^verbatim>\<open>generate_visual_prompt_async\<close> of \<^verbatim>\<open>main.py\<close>.\<close>

definition generate_visual_prompt_async :: "env \<Rightarrow> trace \<Rightarrow> json \<Rightarrow> (exn + string) \<times> trace" where
  "generate_visual_prompt_async E tr story_text =
     (case call_gemini_api_async E tr (visual_prompt_request_async E story_text) of
        (Inl ex, tr') \<Rightarrow> (Inl ex, tr')
      | (Inr visual_prompt, tr') \<Rightarrow>
          (case visual_prompt of
             JStr s \<Rightarrow> (Inr (clean_prompt s), tr')
           | _ \<Rightarrow> (Inl AttributeError, tr')))"

subsection \<open>Illustration client\<close>

text \<open>
  The handler of \<^verbatim>\<open>game_engine.py\<close>, from \<^verbatim>\<open>if e.response:\<close> to \<^verbatim>\<open>time.sleep\<close>: the number
  of seconds it sleeps before the retry, or \<open>None\<close> when it goes on to \<^verbatim>\<open>return None\<close>.
  \<^verbatim>\<open>if e.response:\<close> tests the truth value of the response, which is \<^verbatim>\<open>response.ok\<close>.
  Whatever is raised between \<^verbatim>\<open>try:\<close> and the bare \<^verbatim>\<open>except:\<close> ends in \<^verbatim>\<open>pass\<close>: a body that
  is not JSON, a value that has no \<^verbatim>\<open>in\<close> or no string subscript (only a \<^verbatim>\<open>dict\<close> has both),
  an \<^verbatim>\<open>int(...)\<close> that fails, the \<^verbatim>\<open>ValueError\<close> of \<^verbatim>\<open>time.sleep\<close> on a negative number and
  its \<^verbatim>\<open>OverflowError\<close> on a number beyond \<open>sleep_limit\<close>.
\<close>

definition loading_wait_time :: "env \<Rightarrow> response option \<Rightarrow> int option" where
  "loading_wait_time E e_response =
     (case e_response of
        None \<Rightarrow> None
      | Some r \<Rightarrow>
          if \<not> response_ok r then None
          else
            (case response_json r of
               None \<Rightarrow> None
             | Some error_data \<Rightarrow>
                 (case error_data of
                    JObj kvs \<Rightarrow>
                      (case (map_of kvs ''error'', map_of kvs ''estimated_time'') of
                         (Some err, Some estimated_time) \<Rightarrow>
                           (case py_int (int_of_str E) estimated_time of
                              None \<Rightarrow> None
                            | Some wait_time \<Rightarrow>
                                if wait_time < 0 \<or> sleep_limit E < wait_time then None
                                else Some wait_time)
                       | _ \<Rightarrow> None)
                  | _ \<Rightarrow> None)))"

text \<open>
  \<^verbatim>\<open>generate_image_with_stable_diffusion\<close> of \<^verbatim>\<open>game_engine.py\<close>. The function calls itself
  after the sleep, with no bound on the depth, so the model takes a bound on the depth
  of the recursion as \<open>fuel\<close>: the result is \<open>None\<close> when a call at depth \<open>fuel\<close> would
  call again. The recursive call stands under the bare \<^verbatim>\<open>except:\<close>, so what it raises
  becomes \<^verbatim>\<open>return None\<close>.
\<close>

fun generate_image_with_stable_diffusion_console ::
  "nat \<Rightarrow> env \<Rightarrow> trace \<Rightarrow> string \<Rightarrow> ((exn + image option) \<times> trace) option" where
  "generate_image_with_stable_diffusion_console fuel E tr visual_prompt =
     (if HUGGINGFACE_API_KEY E = [] then Some (Inr None, tr)
      else
        (case post_checked E tr STABLE_DIFFUSION_API_URL
                [(''Authorization'', ''Bearer '' @ HUGGINGFACE_API_KEY E)]
                (JObj [(''inputs'', JStr visual_prompt)]) of
           (Inr r, tr') \<Rightarrow>
             (case image_open r of
                None \<Rightarrow> Some (Inl UnidentifiedImageError, tr')
              | Some img \<Rightarrow> Some (Inr (Some img), tr'))
         | (Inl e_response, tr') \<Rightarrow>
             (case loading_wait_time E e_response of
                None \<Rightarrow> Some (Inr None, tr')
              | Some wait_time \<Rightarrow>
                  (case fuel of
                     0 \<Rightarrow> None
                   | Suc fuel' \<Rightarrow>
                       (case generate_image_with_stable_diffusion_console fuel' E
                               (tr' @ [Sleep wait_time]) visual_prompt of
                          None \<Rightarrow> None
                        | Some (Inl ex, tr'') \<Rightarrow> Some (Inr None, tr'')
                        | Some (Inr img, tr'') \<Rightarrow> Some (Inr img, tr''))))))"

declare generate_image_with_stable_diffusion_console.simps [simp del]

text \<open>
  \<^verbatim>\<open>generate_image_with_stable_diffusion\<close> of \<^verbatim>\<open>main.py\<close>: the handler prints and falls
  through to \<^verbatim>\<open>return None\<close>. \<^verbatim>\<open>generate_image_async\<close> runs it in the executor.
\<close>

definition generate_image_with_stable_diffusion_push ::
  "env \<Rightarrow> trace \<Rightarrow> string \<Rightarrow> (exn + string option) \<times> trace" where
  "generate_image_with_stable_diffusion_push E tr visual_prompt =
     (if HUGGINGFACE_API_KEY E = [] then (Inr None, tr)
      else
        (case post_checked E tr STABLE_DIFFUSION_API_URL
                [(''Authorization'', ''Bearer '' @ HUGGINGFACE_API_KEY E)]
                (JObj [(''inputs'', JStr visual_prompt)]) of
           (Inr r, tr') \<Rightarrow>
             (case image_open r of
                None \<Rightarrow> (Inl UnidentifiedImageError, tr')
              | Some img \<Rightarrow> (Inr (Some (png_base64 E img)), tr'))
         | (Inl e_response, tr') \<Rightarrow> (Inr None, tr')))"

definition generate_image_async :: "env \<Rightarrow> trace \<Rightarrow> string \<Rightarrow> (exn + string option) \<times> trace" where
  "generate_image_async E tr visual_prompt =
     generate_image_with_stable_diffusion_push E tr visual_prompt"

subsection \<open>Session state\<close>

text \<open>
  The variables of a session loop: the transcript \<^verbatim>\<open>story_history\<close>, the last scene
  \<^verbatim>\<open>scene_text\<close> and the trace of events so far; the console game also counts the
  illustrations it has saved.
\<close>

record session =
  story_history :: "string list"
  scene_text :: json
  events :: trace

record console_session = session +
  scene_counter :: nat

text \<open>
  How a session ends: the player types \<^verbatim>\<open>quit\<close>; \<^verbatim>\<open>input()\<close> raises \<^verbatim>\<open>EOFError\<close> because
  standard input is at its end; the client disconnects; or another exception leaves the
  function.
\<close>

datatype exit = Quit | End_of_input | Disconnected | Failed exn

subsection \<open>Console session loop\<close>

fun decimal :: "nat \<Rightarrow> string" where
  "decimal n =
     (if n < 10 then [''0123456789'' ! n]
      else decimal (n div 10) @ [''0123456789'' ! (n mod 10)])"

declare decimal.simps [simp del]

definition initial_prompt :: "string \<Rightarrow> string" where
  "initial_prompt user_idea =
     ''You are a text adventure game's Dungeon Master. '' @
     ''The user's character and setting is: '' @ [CHR 0x27] @ user_idea @ [CHR 0x27] @ ''. '' @
     ''Describe the opening scene in a vivid, engaging style. '' @
     ''End your response by giving the user two clear choices, labeled A and B.''"

definition next_prompt :: "string list \<Rightarrow> string" where
  "next_prompt history =
     ''You are a text adventure game's Dungeon Master. Continue the story based on the user's last choice. '' @
     ''Describe the outcome and the new scene. Keep it consistent and engaging. '' @
     ''End with two new, clear choices, labeled A and B. '' @
     ''Here is the story so far:'' @ [CHR 0x0A] @ join '' '' history"

text \<open>
  The lines that follow each scene in \<^verbatim>\<open>main_game_loop\<close>, once before the loop and once at
  the end of its body: derive the visual prompt, ask for the illustration and, if there
  is one, count it and save it as \<^verbatim>\<open>scene_<n>.png\<close>. An image object is always true.
\<close>

definition illustrate ::
  "nat \<Rightarrow> env \<Rightarrow> console_session \<Rightarrow> ((exn + unit) \<times> console_session) option" where
  "illustrate fuel E s =
     (case generate_visual_prompt E (events s) (scene_text s) of
        (Inl ex, tr) \<Rightarrow> Some (Inl ex, s\<lparr>events := tr\<rparr>)
      | (Inr visual_prompt, tr) \<Rightarrow>
          (case generate_image_with_stable_diffusion_console fuel E tr visual_prompt of
             None \<Rightarrow> None
           | Some (Inl ex, tr') \<Rightarrow> Some (Inl ex, s\<lparr>events := tr'\<rparr>)
           | Some (Inr None, tr') \<Rightarrow> Some (Inr (), s\<lparr>events := tr'\<rparr>)
           | Some (Inr (Some img), tr') \<Rightarrow>
               Some (Inr (), s\<lparr>events := tr' @ [Save (''scene_'' @ decimal (scene_counter s + 1) @ ''.png'') img],
                                scene_counter := scene_counter s + 1\<rparr>)))"

text \<open>The body of the loop once the choice is \<^verbatim>\<open>A\<close> or \<^verbatim>\<open>B\<close>.\<close>

definition play_turn ::
  "nat \<Rightarrow> env \<Rightarrow> console_session \<Rightarrow> string \<Rightarrow> ((exn + unit) \<times> console_session) option" where
  "play_turn fuel E s user_choice =
     (let history = story_history s @ [''User chose: '' @ user_choice] in
      case call_gemini_api_console E (events s) (next_prompt history) of
        (Inl ex, tr) \<Rightarrow> Some (Inl ex, s\<lparr>story_history := history, events := tr\<rparr>)
      | (Inr text, tr) \<Rightarrow>
          illustrate fuel E
            (s\<lparr>story_history := history @ [''AI Scene: '' @ fmt E text],
               scene_text := text, events := tr\<rparr>))"

text \<open>
  \<^verbatim>\<open>while True:\<close> of \<^verbatim>\<open>main_game_loop\<close>, over the lines standard input still holds. The
  body starts with \<^verbatim>\<open>print(textwrap.fill(scene_text, width=80))\<close>, and \<^verbatim>\<open>textwrap.fill\<close>
  calls a string method of its argument: a scene that is no string raises
  \<^verbatim>\<open>AttributeError\<close> before the line is read.
\<close>

fun game_loop ::
  "nat \<Rightarrow> env \<Rightarrow> console_session \<Rightarrow> string list \<Rightarrow> (exit \<times> console_session) option" where
  "game_loop fuel E s [] =
     (case scene_text s of
        JStr scene \<Rightarrow> Some (End_of_input, s)
      | _ \<Rightarrow> Some (Failed AttributeError, s))"
| "game_loop fuel E s (line # lines) =
     (case scene_text s of
        JStr scene \<Rightarrow>
          (let user_choice = upper line in
           if user_choice = ''QUIT'' then Some (Quit, s)
           else if user_choice \<notin> set [''A'', ''B''] then game_loop fuel E s lines
           else
             (case play_turn fuel E s user_choice of
                None \<Rightarrow> None
              | Some (Inl ex, s') \<Rightarrow> Some (Failed ex, s')
              | Some (Inr u, s') \<Rightarrow> game_loop fuel E s' lines))
      | _ \<Rightarrow> Some (Failed AttributeError, s))"

text \<open>Whether the scene of a session is a string, so that the loop can print it.\<close>

definition scene_is_text :: "console_session \<Rightarrow> bool" where
  "scene_is_text s = (case scene_text s of JStr scene \<Rightarrow> True | _ \<Rightarrow> False)"

definition main_game_loop ::
  "nat \<Rightarrow> env \<Rightarrow> string list \<Rightarrow> (exit \<times> console_session) option" where
  "main_game_loop fuel E stdin =
     (case stdin of
        [] \<Rightarrow> Some (End_of_input,
                \<lparr>story_history = [], scene_text = JNull, events = [], scene_counter = 0\<rparr>)
      | user_idea # lines \<Rightarrow>
          (let history = [''The user's character is '' @ user_idea @ ''.''] in
           case call_gemini_api_console E [] (initial_prompt user_idea) of
             (Inl ex, tr) \<Rightarrow>
               Some (Failed ex,
                 \<lparr>story_history = history, scene_text = JNull, events = tr, scene_counter = 0\<rparr>)
           | (Inr text, tr) \<Rightarrow>
               (case illustrate fuel E
                       \<lparr>story_history = history @ [''AI Scene: '' @ fmt E text],
                        scene_text = text, events = tr, scene_counter = 0\<rparr> of
                  None \<Rightarrow> None
                | Some (Inl ex, s) \<Rightarrow> Some (Failed ex, s)
                | Some (Inr u, s) \<Rightarrow> game_loop fuel E s lines)))"


definition append_scene :: "env \<Rightarrow> console_session \<Rightarrow> string \<Rightarrow> (exn + unit) \<times> console_session" where
  "append_scene E s user_choice =
     (let history = story_history s @ [''User chose: '' @ user_choice] in
      case call_gemini_api_console E (events s) (next_prompt history) of
        (Inl ex, tr) \<Rightarrow> (Inl ex, s\<lparr>story_history := history, events := tr\<rparr>)
      | (Inr text, tr) \<Rightarrow>
          (Inr (), s\<lparr>story_history := history @ [''AI Scene: '' @ fmt E text],
                    scene_text := text, events := tr\<rparr>))"

subsection \<open>Push session loop\<close>

definition initial_prompt_push :: "env \<Rightarrow> json \<Rightarrow> string" where
  "initial_prompt_push E user_idea =
     ''You are a text adventure game's Dungeon Master. '' @
     ''The user's character and setting is: '' @ [CHR 0x27] @ fmt E user_idea @ [CHR 0x27] @ ''. '' @
     ''Describe the opening scene vividly. '' @
     ''Your response MUST end with two clear choices for the user, formatted exactly as 'A) [Choice text]' and 'B) [Choice text]' on separate lines.''"

definition next_prompt_push :: "string list \<Rightarrow> string" where
  "next_prompt_push history =
     ''You are a text adventure game's Dungeon Master. Continue the story based on the user's last choice. '' @
     ''Describe the outcome and the new scene. Keep the story consistent. '' @
     ''Your response MUST end with two new, clear choices, formatted exactly as 'A) [Choice text]' and 'B) [Choice text]' on separate lines. '' @
     ''Here is the story so far:'' @ [CHR 0x0A] @ join '' '' history"

text \<open>
  The lines that follow each scene in \<^verbatim>\<open>websocket_endpoint\<close>: send the story message,
  derive the visual prompt, ask for the illustration and send it if the base64 text is
  not empty.
\<close>

definition deliver :: "env \<Rightarrow> session \<Rightarrow> (exn + unit) \<times> session" where
  "deliver E s =
     (let tr0 = events s @ [Send (JObj [(''type'', JStr ''story''), (''text'', scene_text s)])] in
      case generate_visual_prompt_async E tr0 (scene_text s) of
        (Inl ex, tr) \<Rightarrow> (Inl ex, s\<lparr>events := tr\<rparr>)
      | (Inr visual_prompt, tr) \<Rightarrow>
          (case generate_image_async E tr visual_prompt of
             (Inl ex, tr') \<Rightarrow> (Inl ex, s\<lparr>events := tr'\<rparr>)
           | (Inr None, tr') \<Rightarrow> (Inr (), s\<lparr>events := tr'\<rparr>)
           | (Inr (Some image_b64), tr') \<Rightarrow>
               (Inr (), s\<lparr>events :=
                  (if image_b64 \<noteq> []
                   then tr' @ [Send (JObj [(''type'', JStr ''image''), (''data'', JStr image_b64)])]
                   else tr')\<rparr>)))"

definition play_turn_push :: "env \<Rightarrow> session \<Rightarrow> json \<Rightarrow> (exn + unit) \<times> session" where
  "play_turn_push E s user_choice =
     (let history = story_history s @ [''User chose: '' @ fmt E user_choice] in
      case call_gemini_api_async E (events s) (next_prompt_push history) of
        (Inl ex, tr) \<Rightarrow> (Inl ex, s\<lparr>story_history := history, events := tr\<rparr>)
      | (Inr text, tr) \<Rightarrow>
          deliver E
            (s\<lparr>story_history := history @ [''AI Scene: '' @ fmt E text],
               scene_text := text, events := tr\<rparr>))"

text \<open>
  \<^verbatim>\<open>while True:\<close> of \<^verbatim>\<open>websocket_endpoint\<close>, over the frames the client still sends:
  \<open>Some data\<close> is a frame that decodes to \<open>data\<close>, \<open>None\<close> one that is not JSON.
  \<^verbatim>\<open>receive_json()\<close> raises \<^verbatim>\<open>WebSocketDisconnect\<close> when the client has gone, which the
  endpoint catches.
\<close>

fun receive_loop :: "env \<Rightarrow> session \<Rightarrow> json option list \<Rightarrow> exit \<times> session" where
  "receive_loop E s [] = (Disconnected, s)"
| "receive_loop E s (None # frames) = (Failed JSONDecodeError, s)"
| "receive_loop E s (Some data # frames) =
     (case dict_get data ''choice'' JNull of
        Inl ex \<Rightarrow> (Failed ex, s)
      | Inr user_choice \<Rightarrow>
          if user_choice \<notin> set [JStr ''A'', JStr ''B''] then receive_loop E s frames
          else
            (case play_turn_push E s user_choice of
               (Inl ex, s') \<Rightarrow> (Failed ex, s')
             | (Inr u, s') \<Rightarrow> receive_loop E s' frames))"

definition websocket_endpoint :: "env \<Rightarrow> json option list \<Rightarrow> exit \<times> session" where
  "websocket_endpoint E frames =
     (case frames of
        [] \<Rightarrow> (Disconnected, \<lparr>story_history = [], scene_text = JNull, events = [Accept]\<rparr>)
      | None # rest \<Rightarrow>
          (Failed JSONDecodeError, \<lparr>story_history = [], scene_text = JNull, events = [Accept]\<rparr>)
      | Some initial_data # rest \<Rightarrow>
          (case dict_get initial_data ''idea'' (JStr ''a brave adventurer in a mysterious land'') of
             Inl ex \<Rightarrow>
               (Failed ex, \<lparr>story_history = [], scene_text = JNull, events = [Accept]\<rparr>)
           | Inr user_idea \<Rightarrow>
               (let history = [''The user's character is '' @ fmt E user_idea @ ''.''] in
                case call_gemini_api_async E [Accept] (initial_prompt_push E user_idea) of
                  (Inl ex, tr) \<Rightarrow>
                    (Failed ex, \<lparr>story_history = history, scene_text = JNull, events = tr\<rparr>)
                | (Inr text, tr) \<Rightarrow>
                    (case deliver E
                            \<lparr>story_history = history @ [''AI Scene: '' @ fmt E text],
                             scene_text = text, events = tr\<rparr> of
                       (Inl ex, s) \<Rightarrow> (Failed ex, s)
                     | (Inr u, s) \<Rightarrow> receive_loop E s rest))))"

subsection \<open>Requests, turns and sample services\<close>

text \<open>The two requests the programs make, as events of the trace.\<close>

definition gemini_request :: "env \<Rightarrow> string \<Rightarrow> event" where
  "gemini_request E prompt =
     Post (GEMINI_API_URL @ GEMINI_API_KEY E) [(''Content-Type'', ''application/json'')]
       (gemini_payload prompt)"

definition image_request :: "env \<Rightarrow> string \<Rightarrow> event" where
  "image_request E visual_prompt =
     Post STABLE_DIFFUSION_API_URL [(''Authorization'', ''Bearer '' @ HUGGINGFACE_API_KEY E)]
       (JObj [(''inputs'', JStr visual_prompt)])"




text \<open>
  A frame the push loop passes over: it decodes to an object whose \<^verbatim>\<open>choice\<close> (\<^verbatim>\<open>None\<close>
  when the key is missing) is neither \<^verbatim>\<open>A\<close> nor \<^verbatim>\<open>B\<close>.
\<close>

fun passed_over :: "json option \<Rightarrow> bool" where
  "passed_over None = False"
| "passed_over (Some data) =
     (case dict_get data ''choice'' JNull of
        Inl ex \<Rightarrow> False
      | Inr c \<Rightarrow> c \<notin> set [JStr ''A'', JStr ''B''])"

text \<open>
  Sample environments: both credentials set, the answers of the services given by
  \<open>answer\<close>.
\<close>

definition service :: "(trace \<Rightarrow> post_result) \<Rightarrow> env" where
  "service answer =
     \<lparr>GEMINI_API_KEY = ''g'', HUGGINGFACE_API_KEY = ''h'', requests_post = answer,
      str_of = (\<lambda>v. ''?''), int_of_str = (\<lambda>s. None), png_base64 = (\<lambda>i. ''b64:'' @ i),
      sleep_limit = 9223372036\<rparr>"

text \<open>A completion with one candidate whose text is \<open>t\<close>.\<close>

definition candidate_reply :: "json \<Rightarrow> post_result" where
  "candidate_reply t =
     Post_returns \<lparr>status_code = 200, body = Json_text
       (JObj [(''candidates'', JArr [JObj [(''content'',
          JObj [(''parts'', JArr [JObj [(''text'', t)]])])]])])\<rparr>"

text \<open>A completion with no candidate.\<close>

definition no_candidate_reply :: post_result where
  "no_candidate_reply =
     Post_returns \<lparr>status_code = 200, body = Json_text (JObj [(''candidates'', JArr [])])\<rparr>"

text \<open>A completion whose only candidate has no \<^verbatim>\<open>content\<close>.\<close>

definition blocked_reply :: post_result where
  "blocked_reply =
     Post_returns \<lparr>status_code = 200, body = Json_text
       (JObj [(''candidates'', JArr [JObj [(''finishReason'', JStr ''SAFETY'')]])])\<rparr>"

text \<open>The loading envelope of the image service, with an estimated time of 20.7 seconds.\<close>

definition loading_envelope :: content where
  "loading_envelope =
     Json_text (JObj [(''error'', JStr ''Model stabilityai/stable-diffusion-xl-base-1.0 is currently loading''),
                      (''estimated_time'', JNum (207 / 10))])"

text \<open>
  The envelope under status 503, as the image service sends it; the envelope on a
  response that is true (a redirect), carried by the exception \<^verbatim>\<open>requests.post\<close> raises;
  an image; and a success whose body is no image.
\<close>

definition loading_reply :: post_result where
  "loading_reply = Post_returns \<lparr>status_code = 503, body = loading_envelope\<rparr>"

definition loading_redirect :: post_result where
  "loading_redirect = Post_raises (Some \<lparr>status_code = 302, body = loading_envelope\<rparr>)"

definition image_reply :: post_result where
  "image_reply = Post_returns \<lparr>status_code = 200, body = Image_data ''PNG''\<rparr>"

definition garbled_reply :: post_result where
  "garbled_reply = Post_returns \<lparr>status_code = 200, body = Other_bytes\<rparr>"

text \<open>An error status with no estimate in its body.\<close>

definition server_error_reply :: post_result where
  "server_error_reply =
     Post_returns \<lparr>status_code = 500,
       body = Json_text (JObj [(''error'', JStr ''Internal Server Error'')])\<rparr>"

text \<open>The same envelope with an estimate of ten thousand million seconds.\<close>

definition huge_estimate_redirect :: post_result where
  "huge_estimate_redirect =
     Post_raises (Some \<lparr>status_code = 302, body = Json_text
       (JObj [(''error'', JStr ''Model stabilityai/stable-diffusion-xl-base-1.0 is currently loading''),
              (''estimated_time'', JNum 10000000000)])\<rparr>)"


text \<open>The same services, but the image service never stops sending the envelope.\<close>

definition stuck_image :: env where
  "stuck_image =
     service (\<lambda>tr. case rev tr of
        Post url hs payload # earlier \<Rightarrow>
          if url = STABLE_DIFFUSION_API_URL then loading_redirect
          else candidate_reply (JStr ''You see a door.'')
      | _ \<Rightarrow> Post_raises None)"

text \<open>No credential and no network: every request raises a connection error.\<close>

definition offline :: env where
  "offline =
     \<lparr>GEMINI_API_KEY = [], HUGGINGFACE_API_KEY = [], requests_post = (\<lambda>tr. Post_raises None),
      str_of = (\<lambda>v. ''?''), int_of_str = (\<lambda>s. None), png_base64 = (\<lambda>i. ''b64:'' @ i),
      sleep_limit = 9223372036\<rparr>"

section \<open>Properties\<close>


subsection \<open>The request and its check\<close>

lemma post_checked_raises:
  "requests_post E (tr @ [Post url hs payload]) = Post_raises r \<Longrightarrow>
   post_checked E tr url hs payload = (Inl r, tr @ [Post url hs payload])"
  by (simp add: post_checked_def)

lemma post_checked_status:
  "requests_post E (tr @ [Post url hs payload]) = Post_returns r \<Longrightarrow> \<not> response_ok r \<Longrightarrow>
   post_checked E tr url hs payload = (Inl (Some r), tr @ [Post url hs payload])"
  by (simp add: post_checked_def)

lemma post_checked_ok:
  "requests_post E (tr @ [Post url hs payload]) = Post_returns r \<Longrightarrow> response_ok r \<Longrightarrow>
   post_checked E tr url hs payload = (Inr r, tr @ [Post url hs payload])"
  by (simp add: post_checked_def)

subsection \<open>Completion client\<close>

lemma first_candidate_text_truthy:
  "first_candidate_text data = Inr t \<Longrightarrow>
   \<exists>cs. dict_get data ''candidates'' JNull = Inr cs \<and> truthy cs"
  apply (cases data; simp add: first_candidate_text_def and_then_def split: option.splits)
  subgoal for kvs cs by (cases cs rule: subscript_0.cases; simp)
  done

text \<open>
  C1 (as amended). A transport-level failure, that is \<^verbatim>\<open>requests.post\<close> raising or an
  error status, makes the completion client return its sentinel: \<^verbatim>\<open>Error: Could not
  connect to the AI.\<close> in the console program, \<^verbatim>\<open>Error: The AI storyteller is currently
  unavailable.\<close> in the push program. An answer with no candidate gives a sentinel too,
  in the console program a second one. An answer whose first candidate carries a text
  gives that text as it is, be it empty.
\<close>

theorem call_gemini_api_text_or_sentinel:
  fixes E tr prompt
  defines "answer \<equiv> requests_post E (tr @ [gemini_request E prompt])"
  shows "((\<exists>r. answer = Post_raises r) \<or> (\<exists>r. answer = Post_returns r \<and> \<not> response_ok r) \<longrightarrow>
            fst (call_gemini_api_console E tr prompt) = Inr (JStr ''Error: Could not connect to the AI.'') \<and>
            fst (call_gemini_api_push E tr prompt) = Inr (JStr ''Error: The AI storyteller is currently unavailable.'')) \<and>
         (\<forall>r data cs. answer = Post_returns r \<and> response_ok r \<and> body r = Json_text data \<and>
               dict_get data ''candidates'' JNull = Inr cs \<and> \<not> truthy cs \<longrightarrow>
            fst (call_gemini_api_console E tr prompt) = Inr (JStr ''Error: The AI returned an unexpected text response.'') \<and>
            fst (call_gemini_api_push E tr prompt) = Inr (JStr ''Error: The AI storyteller is currently unavailable.'')) \<and>
         (\<forall>r data t. answer = Post_returns r \<and> response_ok r \<and> body r = Json_text data \<and>
               first_candidate_text data = Inr t \<longrightarrow>
            fst (call_gemini_api_console E tr prompt) = Inr t \<and>
            fst (call_gemini_api_push E tr prompt) = Inr t)"
proof (intro conjI allI impI)
  assume "(\<exists>r. answer = Post_raises r) \<or> (\<exists>r. answer = Post_returns r \<and> \<not> response_ok r)"
  then obtain e where failed:
    "post_checked E tr (GEMINI_API_URL @ GEMINI_API_KEY E) [(''Content-Type'', ''application/json'')]
       (gemini_payload prompt) = (Inl e, tr @ [gemini_request E prompt])"
    unfolding answer_def gemini_request_def
    by (auto dest: post_checked_raises post_checked_status)
  show "fst (call_gemini_api_console E tr prompt) = Inr (JStr ''Error: Could not connect to the AI.'')"
    by (simp add: call_gemini_api_console_def failed)
  show "fst (call_gemini_api_push E tr prompt) = Inr (JStr ''Error: The AI storyteller is currently unavailable.'')"
    by (simp add: call_gemini_api_push_def failed)
next
  fix r data cs
  assume a: "answer = Post_returns r \<and> response_ok r \<and> body r = Json_text data \<and>
    dict_get data ''candidates'' JNull = Inr cs \<and> \<not> truthy cs"
  then have ok:
    "post_checked E tr (GEMINI_API_URL @ GEMINI_API_KEY E) [(''Content-Type'', ''application/json'')]
       (gemini_payload prompt) = (Inr r, tr @ [gemini_request E prompt])"
    unfolding answer_def gemini_request_def by (auto dest: post_checked_ok)
  show "fst (call_gemini_api_console E tr prompt) = Inr (JStr ''Error: The AI returned an unexpected text response.'')"
    using a by (simp add: call_gemini_api_console_def ok response_json_def)
  show "fst (call_gemini_api_push E tr prompt) = Inr (JStr ''Error: The AI storyteller is currently unavailable.'')"
    using a by (simp add: call_gemini_api_push_def ok response_json_def)
next
  fix r data t
  assume a: "answer = Post_returns r \<and> response_ok r \<and> body r = Json_text data \<and>
    first_candidate_text data = Inr t"
  then have ok:
    "post_checked E tr (GEMINI_API_URL @ GEMINI_API_KEY E) [(''Content-Type'', ''application/json'')]
       (gemini_payload prompt) = (Inr r, tr @ [gemini_request E prompt])"
    unfolding answer_def gemini_request_def by (auto dest: post_checked_ok)
  from a obtain cs where cs: "dict_get data ''candidates'' JNull = Inr cs" "truthy cs"
    using first_candidate_text_truthy by blast
  show "fst (call_gemini_api_console E tr prompt) = Inr t"
    using a cs by (simp add: call_gemini_api_console_def ok response_json_def)
  show "fst (call_gemini_api_push E tr prompt) = Inr t"
    using a cs by (simp add: call_gemini_api_push_def ok response_json_def)
qed

theorem call_gemini_api_text_or_sentinel_witness:
  "fst (call_gemini_api_console (service (\<lambda>tr. Post_raises None)) [] ''hello'') =
     Inr (JStr ''Error: Could not connect to the AI.'') \<and>
   fst (call_gemini_api_push (service (\<lambda>tr. Post_returns \<lparr>status_code = 500, body = Other_bytes\<rparr>)) [] ''hello'') =
     Inr (JStr ''Error: The AI storyteller is currently unavailable.'') \<and>
   fst (call_gemini_api_console (service (\<lambda>tr. no_candidate_reply)) [] ''hello'') =
     Inr (JStr ''Error: The AI returned an unexpected text response.'') \<and>
   fst (call_gemini_api_push (service (\<lambda>tr. no_candidate_reply)) [] ''hello'') =
     Inr (JStr ''Error: The AI storyteller is currently unavailable.'') \<and>
   fst (call_gemini_api_console (service (\<lambda>tr. candidate_reply (JStr ''You wake in a forest.''))) [] ''hello'') =
     Inr (JStr ''You wake in a forest.'') \<and>
   fst (call_gemini_api_push (service (\<lambda>tr. candidate_reply (JStr ''You wake in a forest.''))) [] ''hello'') =
     Inr (JStr ''You wake in a forest.'')"
proof -
  show ?thesis
    using call_gemini_api_text_or_sentinel [of "service (\<lambda>tr. Post_raises None)" "[]" "''hello''"]
      call_gemini_api_text_or_sentinel [of "service (\<lambda>tr. Post_returns \<lparr>status_code = 500, body = Other_bytes\<rparr>)" "[]" "''hello''"]
      call_gemini_api_text_or_sentinel [of "service (\<lambda>tr. no_candidate_reply)" "[]" "''hello''"]
      call_gemini_api_text_or_sentinel [of "service (\<lambda>tr. candidate_reply (JStr ''You wake in a forest.''))" "[]" "''hello''"]
    by (simp add: service_def response_ok_def no_candidate_reply_def candidate_reply_def
        first_candidate_text_def and_then_def)
qed

text \<open>
  C1 fails as stated. The text of the first candidate is returned without a look at it:
  when it is the empty string, the result is neither a non-empty text nor a sentinel.
  And a candidate without \<^verbatim>\<open>content\<close>, as the service sends when it withholds an answer,
  makes the subscript raise \<^verbatim>\<open>KeyError\<close>, which the handler for \<^verbatim>\<open>RequestException\<close> does
  not catch.
\<close>

theorem call_gemini_api_empty_or_raises:
  "fst (call_gemini_api_console (service (\<lambda>tr. candidate_reply (JStr ''''))) [] ''hello'') = Inr (JStr '''') \<and>
   fst (call_gemini_api_push (service (\<lambda>tr. candidate_reply (JStr ''''))) [] ''hello'') = Inr (JStr '''') \<and>
   fst (call_gemini_api_console (service (\<lambda>tr. blocked_reply)) [] ''hello'') = Inl KeyError \<and>
   fst (call_gemini_api_push (service (\<lambda>tr. blocked_reply)) [] ''hello'') = Inl KeyError"
  by (simp add: call_gemini_api_console_def call_gemini_api_push_def post_checked_def
      response_json_def service_def candidate_reply_def blocked_reply_def response_ok_def
      first_candidate_text_def and_then_def)

subsection \<open>Illustration client\<close>

text \<open>
  C5. With no image credential (\<^verbatim>\<open>HUGGINGFACE_API_KEY\<close> is the empty string, the default
  of \<^verbatim>\<open>os.getenv\<close>), the illustration client of either program returns \<^verbatim>\<open>None\<close> and
  leaves the trace as it was: no request is made, whatever the prompt.
\<close>

theorem missing_credential_no_request:
  "generate_image_with_stable_diffusion_console fuel (E\<lparr>HUGGINGFACE_API_KEY := []\<rparr>) tr visual_prompt =
     Some (Inr None, tr) \<and>
   generate_image_with_stable_diffusion_push (E\<lparr>HUGGINGFACE_API_KEY := []\<rparr>) tr visual_prompt =
     (Inr None, tr)"
  by (simp add: generate_image_with_stable_diffusion_push_def
      generate_image_with_stable_diffusion_console.simps [of fuel])


lemma push_image_trace:
  "snd (generate_image_with_stable_diffusion_push E tr vp) = tr \<or>
   snd (generate_image_with_stable_diffusion_push E tr vp) = tr @ [image_request E vp]"
  by (simp add: generate_image_with_stable_diffusion_push_def image_request_def post_checked_def Let_def
      split: post_result.splits option.splits)

lemma post_checked_failure:
  "requests_post E (tr @ [Post url hs payload]) = Post_raises e \<or>
   (\<exists>r. requests_post E (tr @ [Post url hs payload]) = Post_returns r \<and> \<not> response_ok r \<and> e = Some r) \<Longrightarrow>
   post_checked E tr url hs payload = (Inl e, tr @ [Post url hs payload])"
  by (auto simp: post_checked_def)

text \<open>
  C4 (as amended). The illustration client of the push program never sleeps and never
  asks again: whatever the service answers, its trace grows by its one request at most.
  When the service answers with an error status, as it does to report that the model is
  loading, the client returns \<^verbatim>\<open>None\<close> after that one request.
\<close>

theorem illustration_push_single_request:
  "(snd (generate_image_with_stable_diffusion_push E tr vp) = tr \<or>
    snd (generate_image_with_stable_diffusion_push E tr vp) = tr @ [image_request E vp]) \<and>
   (\<forall>r. HUGGINGFACE_API_KEY E \<noteq> [] \<and>
        requests_post E (tr @ [image_request E vp]) = Post_returns r \<and> \<not> response_ok r \<longrightarrow>
      generate_image_with_stable_diffusion_push E tr vp = (Inr None, tr @ [image_request E vp]))"
proof (intro conjI allI impI)
  show "snd (generate_image_with_stable_diffusion_push E tr vp) = tr \<or>
    snd (generate_image_with_stable_diffusion_push E tr vp) = tr @ [image_request E vp]"
    by (rule push_image_trace)
next
  fix r
  assume a: "HUGGINGFACE_API_KEY E \<noteq> [] \<and>
        requests_post E (tr @ [image_request E vp]) = Post_returns r \<and> \<not> response_ok r"
  then have "post_checked E tr STABLE_DIFFUSION_API_URL
      [(''Authorization'', ''Bearer '' @ HUGGINGFACE_API_KEY E)] (JObj [(''inputs'', JStr vp)]) =
      (Inl (Some r), tr @ [image_request E vp])"
    unfolding image_request_def by (intro post_checked_failure) simp
  with a show "generate_image_with_stable_diffusion_push E tr vp = (Inr None, tr @ [image_request E vp])"
    by (simp add: generate_image_with_stable_diffusion_push_def)
qed

theorem illustration_push_single_request_witness:
  "generate_image_with_stable_diffusion_push (service (\<lambda>tr. loading_reply)) [Accept] ''a dragon'' =
     (Inr None, [Accept, image_request (service (\<lambda>tr. loading_reply)) ''a dragon''])"
proof -
  let ?E = "service (\<lambda>tr. loading_reply)"
  have h: "HUGGINGFACE_API_KEY ?E \<noteq> [] \<and>
      requests_post ?E ([Accept] @ [image_request ?E ''a dragon'']) =
        Post_returns \<lparr>status_code = 503, body = loading_envelope\<rparr> \<and>
      \<not> response_ok \<lparr>status_code = 503, body = loading_envelope\<rparr>"
    by (simp add: service_def loading_reply_def response_ok_def)
  from illustration_push_single_request [of ?E "[Accept]" "''a dragon''", THEN conjunct2, rule_format, OF h]
  show ?thesis by simp
qed

text \<open>
  C4 fails as stated: on the envelope under status 503 the push client makes its one
  request and returns \<^verbatim>\<open>None\<close>; there is no sleep and no second request.
\<close>

theorem illustration_push_no_retry:
  "generate_image_with_stable_diffusion_push (service (\<lambda>tr. loading_reply)) [] ''a castle'' =
     (Inr None, [image_request (service (\<lambda>tr. loading_reply)) ''a castle''])"
  by (simp add: generate_image_with_stable_diffusion_push_def service_def post_checked_def
      image_request_def loading_reply_def response_ok_def)


lemma illustration_console_status_no_retry:
  "generate_image_with_stable_diffusion_console fuel (service (\<lambda>tr. loading_reply)) [] ''a castle'' =
     Some (Inr None, [image_request (service (\<lambda>tr. loading_reply)) ''a castle''])"
  by (simp add: generate_image_with_stable_diffusion_console.simps [of fuel] service_def post_checked_def
      image_request_def loading_reply_def response_ok_def loading_wait_time_def)

text \<open>
  Where the handler of the console client does reach the envelope, on an exception whose
  response is true, it sleeps the estimate cut to an integer, if \<^verbatim>\<open>time.sleep\<close> takes
  it, and calls itself; a second envelope makes it retry again, and an estimate beyond
  the limit of \<^verbatim>\<open>time.sleep\<close> makes it return \<^verbatim>\<open>None\<close> at once.
\<close>

lemma console_retry_step:
  assumes key: "HUGGINGFACE_API_KEY E \<noteq> []"
    and ans: "requests_post E (tr @ [image_request E vp]) = Post_raises (Some r)"
    and ok: "response_ok r"
    and bd: "body r = Json_text (JObj kvs)"
    and er: "map_of kvs ''error'' = Some err"
    and et: "map_of kvs ''estimated_time'' = Some (JNum q)"
    and q: "0 \<le> q" "\<lfloor>q\<rfloor> \<le> sleep_limit E"
  shows "generate_image_with_stable_diffusion_console (Suc fuel) E tr vp =
     (case generate_image_with_stable_diffusion_console fuel E (tr @ [image_request E vp, Sleep \<lfloor>q\<rfloor>]) vp of
        None \<Rightarrow> None
      | Some (Inl ex, tr'') \<Rightarrow> Some (Inr None, tr'')
      | Some (Inr img, tr'') \<Rightarrow> Some (Inr img, tr''))"
proof -
  have w: "loading_wait_time E (Some r) = Some \<lfloor>q\<rfloor>"
    using ok bd er et q by (simp add: loading_wait_time_def response_json_def)
  have p: "post_checked E tr STABLE_DIFFUSION_API_URL
      [(''Authorization'', ''Bearer '' @ HUGGINGFACE_API_KEY E)] (JObj [(''inputs'', JStr vp)]) =
      (Inl (Some r), tr @ [image_request E vp])"
    using ans by (simp add: post_checked_def image_request_def)
  show ?thesis
    by (subst generate_image_with_stable_diffusion_console.simps) (simp add: key p [simplified] w)
qed

lemma floor_sample: "\<lfloor>207 / 10 :: rat\<rfloor> = 20"
  by code_simp

lemma illustration_console_retries_again:
  "generate_image_with_stable_diffusion_console 2
     (service (\<lambda>tr. if length tr < 4 then loading_redirect else image_reply)) [] ''a castle'' =
   Some (Inr (Some ''PNG''),
     [image_request (service (\<lambda>tr. if length tr < 4 then loading_redirect else image_reply)) ''a castle'',
      Sleep 20,
      image_request (service (\<lambda>tr. if length tr < 4 then loading_redirect else image_reply)) ''a castle'',
      Sleep 20,
      image_request (service (\<lambda>tr. if length tr < 4 then loading_redirect else image_reply)) ''a castle''])"
  by (simp add: generate_image_with_stable_diffusion_console.simps [of 2]
      generate_image_with_stable_diffusion_console.simps [of "Suc 0"]
      generate_image_with_stable_diffusion_console.simps [of 0]
      service_def post_checked_def image_request_def image_reply_def loading_redirect_def
      loading_envelope_def response_ok_def image_open_def loading_wait_time_def response_json_def
      floor_sample)

lemma illustration_console_huge_estimate:
  "generate_image_with_stable_diffusion_console fuel (service (\<lambda>tr. huge_estimate_redirect)) [] ''a castle'' =
     Some (Inr None, [image_request (service (\<lambda>tr. huge_estimate_redirect)) ''a castle''])"
  by (simp add: generate_image_with_stable_diffusion_console.simps [of fuel] service_def post_checked_def
      image_request_def huge_estimate_redirect_def response_ok_def loading_wait_time_def
      response_json_def)

lemma loading_wait_time_no_envelope:
  "response_json r = None \<or>
   (\<exists>kvs. body r = Json_text (JObj kvs) \<and>
      (map_of kvs ''error'' = None \<or> map_of kvs ''estimated_time'' = None)) \<Longrightarrow>
   loading_wait_time E (Some r) = None"
  by (auto simp: loading_wait_time_def response_json_def split: option.splits)

text \<open>
  C6 (as amended). When the request fails with a \<^verbatim>\<open>RequestException\<close>, raised by
  \<^verbatim>\<open>requests.post\<close> or by \<^verbatim>\<open>raise_for_status\<close> on an error status, the push client returns
  \<^verbatim>\<open>None\<close>, and so does the console client unless its handler goes on to the retry. The
  handler does not go on to the retry when the exception has no response, when the body
  of the response is not JSON, or when the object lacks \<^verbatim>\<open>error\<close> or \<^verbatim>\<open>estimated_time\<close>.
\<close>

theorem illustration_failure_returns_nothing:
  "(\<forall>e. HUGGINGFACE_API_KEY E \<noteq> [] \<and>
       (requests_post E (tr @ [image_request E vp]) = Post_raises e \<or>
        (\<exists>r. requests_post E (tr @ [image_request E vp]) = Post_returns r \<and>
             \<not> response_ok r \<and> e = Some r)) \<longrightarrow>
     generate_image_with_stable_diffusion_push E tr vp = (Inr None, tr @ [image_request E vp]) \<and>
     (loading_wait_time E e = None \<longrightarrow>
        generate_image_with_stable_diffusion_console fuel E tr vp =
          Some (Inr None, tr @ [image_request E vp]))) \<and>
   loading_wait_time E None = None \<and>
   (\<forall>r. response_json r = None \<or>
        (\<exists>kvs. body r = Json_text (JObj kvs) \<and>
           (map_of kvs ''error'' = None \<or> map_of kvs ''estimated_time'' = None)) \<longrightarrow>
      loading_wait_time E (Some r) = None)"
proof (intro conjI allI impI)
  fix e
  assume a: "HUGGINGFACE_API_KEY E \<noteq> [] \<and>
       (requests_post E (tr @ [image_request E vp]) = Post_raises e \<or>
        (\<exists>r. requests_post E (tr @ [image_request E vp]) = Post_returns r \<and>
             \<not> response_ok r \<and> e = Some r))"
  then have p: "post_checked E tr STABLE_DIFFUSION_API_URL
      [(''Authorization'', ''Bearer '' @ HUGGINGFACE_API_KEY E)] (JObj [(''inputs'', JStr vp)]) =
      (Inl e, tr @ [image_request E vp])"
    unfolding image_request_def by (intro post_checked_failure) simp
  show "generate_image_with_stable_diffusion_push E tr vp = (Inr None, tr @ [image_request E vp])"
    using a by (simp add: generate_image_with_stable_diffusion_push_def p [simplified])
  assume "loading_wait_time E e = None"
  then show "generate_image_with_stable_diffusion_console fuel E tr vp =
      Some (Inr None, tr @ [image_request E vp])"
    using a by (simp add: generate_image_with_stable_diffusion_console.simps [of fuel] p [simplified])
next
  show "loading_wait_time E None = None"
    by (simp add: loading_wait_time_def)
next
  fix r
  assume "response_json r = None \<or>
        (\<exists>kvs. body r = Json_text (JObj kvs) \<and>
           (map_of kvs ''error'' = None \<or> map_of kvs ''estimated_time'' = None))"
  then show "loading_wait_time E (Some r) = None"
    by (rule loading_wait_time_no_envelope)
qed

theorem illustration_failure_returns_nothing_witness:
  "generate_image_with_stable_diffusion_push (service (\<lambda>tr. Post_raises None)) [] ''a castle'' =
     (Inr None, [image_request (service (\<lambda>tr. Post_raises None)) ''a castle'']) \<and>
   generate_image_with_stable_diffusion_console 0 (service (\<lambda>tr. Post_raises None)) [] ''a castle'' =
     Some (Inr None, [image_request (service (\<lambda>tr. Post_raises None)) ''a castle'']) \<and>
   generate_image_with_stable_diffusion_console 0
       (service (\<lambda>tr. Post_raises (Some \<lparr>status_code = 302, body = Other_bytes\<rparr>))) [] ''a castle'' =
     Some (Inr None,
       [image_request (service (\<lambda>tr. Post_raises (Some \<lparr>status_code = 302, body = Other_bytes\<rparr>))) ''a castle'']) \<and>
   generate_image_with_stable_diffusion_push (service (\<lambda>tr. server_error_reply)) [] ''a castle'' =
     (Inr None, [image_request (service (\<lambda>tr. server_error_reply)) ''a castle'']) \<and>
   generate_image_with_stable_diffusion_console 0 (service (\<lambda>tr. server_error_reply)) [] ''a castle'' =
     Some (Inr None, [image_request (service (\<lambda>tr. server_error_reply)) ''a castle''])"
proof -
  let ?s = "\<lparr>status_code = 500, body = Json_text (JObj [(''error'', JStr ''Internal Server Error'')])\<rparr>"
  let ?S = "service (\<lambda>tr. server_error_reply)"
  have s: "HUGGINGFACE_API_KEY ?S \<noteq> [] \<and>
       (requests_post ?S ([] @ [image_request ?S ''a castle'']) = Post_raises (Some ?s) \<or>
        (\<exists>r. requests_post ?S ([] @ [image_request ?S ''a castle'']) = Post_returns r \<and>
             \<not> response_ok r \<and> Some ?s = Some r))"
    by (simp add: service_def server_error_reply_def response_ok_def)
  have m: "response_json ?s = None \<or>
        (\<exists>kvs. body ?s = Json_text (JObj kvs) \<and>
           (map_of kvs ''error'' = None \<or> map_of kvs ''estimated_time'' = None))"
    by simp
  note sn = illustration_failure_returns_nothing [of ?S "[]" "''a castle''" 0]
  let ?D = "service (\<lambda>tr. Post_raises None)"
  let ?r = "\<lparr>status_code = 302, body = Other_bytes\<rparr>"
  let ?U = "service (\<lambda>tr. Post_raises (Some ?r))"
  have d: "HUGGINGFACE_API_KEY ?D \<noteq> [] \<and>
       (requests_post ?D ([] @ [image_request ?D ''a castle'']) = Post_raises None \<or>
        (\<exists>r. requests_post ?D ([] @ [image_request ?D ''a castle'']) = Post_returns r \<and>
             \<not> response_ok r \<and> None = Some r))"
    by (simp add: service_def)
  have u: "HUGGINGFACE_API_KEY ?U \<noteq> [] \<and>
       (requests_post ?U ([] @ [image_request ?U ''a castle'']) = Post_raises (Some ?r) \<or>
        (\<exists>r. requests_post ?U ([] @ [image_request ?U ''a castle'']) = Post_returns r \<and>
             \<not> response_ok r \<and> Some ?r = Some r))"
    by (simp add: service_def)
  have n: "response_json ?r = None \<or>
        (\<exists>kvs. body ?r = Json_text (JObj kvs) \<and>
           (map_of kvs ''error'' = None \<or> map_of kvs ''estimated_time'' = None))"
    by (simp add: response_json_def)
  note dn = illustration_failure_returns_nothing [of ?D "[]" "''a castle''" 0]
  note un = illustration_failure_returns_nothing [of ?U "[]" "''a castle''" 0]
  from dn [THEN conjunct1, rule_format, OF d] dn [THEN conjunct2, THEN conjunct1]
    un [THEN conjunct1, rule_format, OF u] un [THEN conjunct2, THEN conjunct2, rule_format, OF n]
    sn [THEN conjunct1, rule_format, OF s] sn [THEN conjunct2, THEN conjunct2, rule_format, OF m]
  show ?thesis by simp
qed

text \<open>
  C6 fails as stated: a success whose body is no image makes \<^verbatim>\<open>Image.open\<close> raise
  \<^verbatim>\<open>UnidentifiedImageError\<close>, which is no \<^verbatim>\<open>RequestException\<close> and leaves the client.
\<close>

theorem illustration_garbled_image_raises:
  "generate_image_with_stable_diffusion_push (service (\<lambda>tr. garbled_reply)) [] ''a castle'' =
     (Inl UnidentifiedImageError, [image_request (service (\<lambda>tr. garbled_reply)) ''a castle'']) \<and>
   generate_image_with_stable_diffusion_console 0 (service (\<lambda>tr. garbled_reply)) [] ''a castle'' =
     Some (Inl UnidentifiedImageError, [image_request (service (\<lambda>tr. garbled_reply)) ''a castle''])"
  by (simp add: generate_image_with_stable_diffusion_push_def service_def post_checked_def
      generate_image_with_stable_diffusion_console.simps [of 0]
      image_request_def garbled_reply_def response_ok_def image_open_def)


subsection \<open>Image-prompt deriver\<close>
















subsection \<open>Session loops\<close>

lemma illustrate_history:
  "illustrate fuel E s = Some (x, s') \<Longrightarrow> story_history s' = story_history s"
  by (auto simp: illustrate_def split: prod.splits sum.splits option.splits)

lemma play_turn_history:
  assumes "play_turn fuel E s c = Some (x, s')"
  shows "(case call_gemini_api_console E (events s)
            (next_prompt (story_history s @ [''User chose: '' @ c])) of
          (Inl ex, tr) \<Rightarrow> x = Inl ex \<and> story_history s' = story_history s @ [''User chose: '' @ c]
        | (Inr t, tr) \<Rightarrow>
            story_history s' = story_history s @ [''User chose: '' @ c, ''AI Scene: '' @ fmt E t])"
  using assms
  by (auto simp: play_turn_def Let_def split: prod.splits sum.splits dest!: illustrate_history)


lemma play_turn_prefix:
  assumes "play_turn fuel E s c = Some (x, s')"
  shows "prefix (story_history s) (story_history s')"
  using play_turn_history [OF assms]
  by (auto split: prod.splits sum.splits)

lemma game_loop_no_text:
  "\<not> scene_is_text s \<Longrightarrow> game_loop fuel E s ls = Some (Failed AttributeError, s)"
  by (cases ls) (auto simp: scene_is_text_def split: json.splits)

lemma game_loop_Nil:
  "scene_is_text s \<Longrightarrow> game_loop fuel E s [] = Some (End_of_input, s)"
  by (auto simp: scene_is_text_def split: json.splits)

lemma game_loop_Cons:
  "scene_is_text s \<Longrightarrow>
   game_loop fuel E s (l # ls) =
     (if upper l = ''QUIT'' then Some (Quit, s)
      else if upper l \<notin> set [''A'', ''B''] then game_loop fuel E s ls
      else
        (case play_turn fuel E s (upper l) of
           None \<Rightarrow> None
         | Some (Inl ex, s') \<Rightarrow> Some (Failed ex, s')
         | Some (Inr u, s') \<Rightarrow> game_loop fuel E s' ls))"
  by (auto simp: scene_is_text_def Let_def split: json.splits)

declare game_loop.simps [simp del]

lemma game_loop_prefix:
  "game_loop fuel E s ls = Some (x, s') \<Longrightarrow> prefix (story_history s) (story_history s')"
proof (induction ls arbitrary: s)
  case Nil
  then show ?case
    by (cases "scene_is_text s") (simp_all add: game_loop_Nil game_loop_no_text)
next
  case (Cons l ls)
  show ?case
  proof (cases "scene_is_text s")
    case False
    with Cons.prems show ?thesis by (simp add: game_loop_no_text)
  next
    case st: True
    note eq = game_loop_Cons [OF st, of fuel E l ls]
    show ?thesis
    proof (cases "upper l = ''QUIT''")
      case True
      with Cons.prems eq show ?thesis by simp
    next
      case nq: False
      show ?thesis
      proof (cases "upper l \<in> set [''A'', ''B'']")
        case False
        with nq Cons.prems eq have "game_loop fuel E s ls = Some (x, s')" by simp
        then show ?thesis by (rule Cons.IH)
      next
        case True
        with nq Cons.prems eq obtain y s1 where
          t: "play_turn fuel E s (upper l) = Some (y, s1)" and
          r: "(\<exists>ex. y = Inl ex \<and> x = Failed ex \<and> s' = s1) \<or>
              (\<exists>u. y = Inr u \<and> game_loop fuel E s1 ls = Some (x, s'))"
          by (auto split: option.splits prod.splits sum.splits)
        from t have p: "prefix (story_history s) (story_history s1)" by (rule play_turn_prefix)
        from r show ?thesis
        proof
          assume "\<exists>ex. y = Inl ex \<and> x = Failed ex \<and> s' = s1"
          with p show ?thesis by auto
        next
          assume "\<exists>u. y = Inr u \<and> game_loop fuel E s1 ls = Some (x, s')"
          then have "prefix (story_history s1) (story_history s')" using Cons.IH by blast
          with p show ?thesis by (rule prefix_order.trans)
        qed
      qed
    qed
  qed
qed






lemma main_game_loop_opening:
  assumes "call_gemini_api_console E [] (initial_prompt user_idea) = (Inr t, tr)"
    and "main_game_loop fuel E (user_idea # ls) = Some (x, s)"
  shows "prefix [''The user's character is '' @ user_idea @ ''.'', ''AI Scene: '' @ fmt E t]
           (story_history s)"
  using assms
  by (auto simp: main_game_loop_def Let_def split: option.splits prod.splits sum.splits
      dest!: illustrate_history game_loop_prefix)

lemma deliver_history: "deliver E s = (x, s') \<Longrightarrow> story_history s' = story_history s"
  by (auto simp: deliver_def Let_def split: prod.splits sum.splits option.splits)

lemma play_turn_push_history:
  assumes "play_turn_push E s c = (x, s')"
  shows "(case call_gemini_api_async E (events s)
            (next_prompt_push (story_history s @ [''User chose: '' @ fmt E c])) of
          (Inl ex, tr) \<Rightarrow> x = Inl ex \<and> story_history s' = story_history s @ [''User chose: '' @ fmt E c]
        | (Inr t, tr) \<Rightarrow>
            story_history s' = story_history s @ [''User chose: '' @ fmt E c, ''AI Scene: '' @ fmt E t])"
  using assms
  by (auto simp: play_turn_push_def Let_def split: prod.splits sum.splits dest!: deliver_history)


lemma play_turn_push_prefix:
  assumes "play_turn_push E s c = (x, s')"
  shows "prefix (story_history s) (story_history s')"
  using play_turn_push_history [OF assms]
  by (auto split: prod.splits sum.splits)

lemma receive_loop_cases:
  assumes "receive_loop E s (f # fs) = (x, s')"
  obtains "f = None" "x = Failed JSONDecodeError" "s' = s"
  | data ex where "f = Some data" "dict_get data ''choice'' JNull = Inl ex" "x = Failed ex" "s' = s"
  | data c where "f = Some data" "dict_get data ''choice'' JNull = Inr c"
      "c \<notin> set [JStr ''A'', JStr ''B'']" "receive_loop E s fs = (x, s')"
  | data c ex where "f = Some data" "dict_get data ''choice'' JNull = Inr c"
      "c \<in> set [JStr ''A'', JStr ''B'']" "play_turn_push E s c = (Inl ex, s')" "x = Failed ex"
  | data c u s1 where "f = Some data" "dict_get data ''choice'' JNull = Inr c"
      "c \<in> set [JStr ''A'', JStr ''B'']" "play_turn_push E s c = (Inr u, s1)"
      "receive_loop E s1 fs = (x, s')"
proof (cases f)
  case None
  with assms that(1) show ?thesis by simp
next
  case (Some data)
  show ?thesis
  proof (cases "dict_get data ''choice'' JNull")
    case (Inl ex)
    with Some assms that(2) show ?thesis by simp
  next
    case (Inr c)
    show ?thesis
    proof (cases "c \<in> set [JStr ''A'', JStr ''B'']")
      case False
      with Some Inr assms that(3) show ?thesis by simp
    next
      case True
      obtain y s1 where t: "play_turn_push E s c = (y, s1)" by (cases "play_turn_push E s c")
      show ?thesis
      proof (cases y)
        case (Inl ex)
        with Some \<open>dict_get data ''choice'' JNull = Inr c\<close> True t assms that(4) [of data c ex]
        show ?thesis by auto
      next
        case (Inr u)
        with Some \<open>dict_get data ''choice'' JNull = Inr c\<close> True t assms that(5) [of data c u s1]
        show ?thesis by auto
      qed
    qed
  qed
qed

lemma receive_loop_prefix:
  "receive_loop E s fs = (x, s') \<Longrightarrow> prefix (story_history s) (story_history s')"
proof (induction fs arbitrary: s)
  case Nil
  then show ?case by simp
next
  case (Cons f fs)
  from Cons.prems show ?case
  proof (cases rule: receive_loop_cases)
    case 1
    then show ?thesis by simp
  next
    case (2 data ex)
    then show ?thesis by simp
  next
    case (3 data c)
    then show ?thesis using Cons.IH by blast
  next
    case (4 data c ex)
    then show ?thesis using play_turn_push_prefix by blast
  next
    case (5 data c u s1)
    then have "prefix (story_history s) (story_history s1)"
      "prefix (story_history s1) (story_history s')"
      using play_turn_push_prefix Cons.IH by blast+
    then show ?thesis by (rule prefix_order.trans)
  qed
qed





lemma websocket_endpoint_premise:
  assumes "dict_get initial_data ''idea'' (JStr ''a brave adventurer in a mysterious land'') = Inr user_idea"
  shows "take 1 (story_history (snd (websocket_endpoint E (Some initial_data # fs)))) =
     [''The user's character is '' @ fmt E user_idea @ ''.'']"
proof -
  obtain x s where w: "websocket_endpoint E (Some initial_data # fs) = (x, s)"
    by (cases "websocket_endpoint E (Some initial_data # fs)")
  have "prefix [''The user's character is '' @ fmt E user_idea @ ''.''] (story_history s)"
    using assms w
    by (auto simp: websocket_endpoint_def Let_def split: option.splits prod.splits sum.splits
        dest!: deliver_history receive_loop_prefix elim!: prefixE)
  with w show ?thesis by (auto elim!: prefixE)
qed


subsection \<open>Sessions without a network\<close>

lemma upper_samples:
  "upper ''A'' = ''A''" "upper ''a'' = ''A''" "upper ''b'' = ''B''" "upper ''B'' = ''B''"
  "upper ''quit'' = ''QUIT''" "upper ''qUiT'' = ''QUIT''" "upper ''look around'' = ''LOOK AROUND''"
  by (simp_all add: upper_def upper_char_def)

lemma clean_prompt_sentinel:
  "clean_prompt ''Error: Could not connect to the AI.'' = ''Error: Could not connect to the AI.''"
  "clean_prompt ''Error: The AI storyteller is currently unavailable.'' =
     ''Error: The AI storyteller is currently unavailable.''"
  by (simp_all add: clean_prompt_def strip_def replace_char_def isspace_def)

lemma call_gemini_api_console_offline:
  "call_gemini_api_console offline tr p =
     (Inr (JStr ''Error: Could not connect to the AI.''), tr @ [gemini_request offline p])"
  by (simp add: call_gemini_api_console_def post_checked_def offline_def gemini_request_def)

lemma call_gemini_api_async_offline:
  "call_gemini_api_async offline tr p =
     (Inr (JStr ''Error: The AI storyteller is currently unavailable.''), tr @ [gemini_request offline p])"
  by (simp add: call_gemini_api_async_def call_gemini_api_push_def post_checked_def offline_def
      gemini_request_def)

lemma illustrate_offline:
  "illustrate fuel offline s =
     Some (Inr (), s\<lparr>events := events s @
       [gemini_request offline (visual_prompt_request offline (scene_text s))]\<rparr>)"
proof -
  have "HUGGINGFACE_API_KEY offline = []" by (simp add: offline_def)
  then show ?thesis
    by (simp add: illustrate_def generate_visual_prompt_def call_gemini_api_console_offline
        generate_image_with_stable_diffusion_console.simps [of fuel])
qed

lemma deliver_offline:
  "deliver offline s =
     (Inr (), s\<lparr>events := events s @
       [Send (JObj [(''type'', JStr ''story''), (''text'', scene_text s)]),
        gemini_request offline (visual_prompt_request_async offline (scene_text s))]\<rparr>)"
proof -
  have "HUGGINGFACE_API_KEY offline = []" by (simp add: offline_def)
  then show ?thesis
    by (simp add: deliver_def generate_visual_prompt_async_def call_gemini_api_async_offline
        generate_image_async_def generate_image_with_stable_diffusion_push_def)
qed

lemma play_turn_offline:
  "play_turn fuel offline s c =
     Some (Inr (),
       s\<lparr>story_history := story_history s @
            [''User chose: '' @ c, ''AI Scene: Error: Could not connect to the AI.''],
         scene_text := JStr ''Error: Could not connect to the AI.'',
         events := events s @
            [gemini_request offline (next_prompt (story_history s @ [''User chose: '' @ c])),
             gemini_request offline (visual_prompt_request offline (JStr ''Error: Could not connect to the AI.''))]\<rparr>)"
  by (simp add: play_turn_def Let_def call_gemini_api_console_offline illustrate_offline fmt_def)

lemma play_turn_push_offline:
  "play_turn_push offline s c =
     (Inr (),
       s\<lparr>story_history := story_history s @
            [''User chose: '' @ fmt offline c, ''AI Scene: Error: The AI storyteller is currently unavailable.''],
         scene_text := JStr ''Error: The AI storyteller is currently unavailable.'',
         events := events s @
            [gemini_request offline (next_prompt_push (story_history s @ [''User chose: '' @ fmt offline c])),
             Send (JObj [(''type'', JStr ''story''),
                (''text'', JStr ''Error: The AI storyteller is currently unavailable.'')]),
             gemini_request offline (visual_prompt_request_async offline
                (JStr ''Error: The AI storyteller is currently unavailable.''))]\<rparr>)"
  by (simp add: play_turn_push_def Let_def call_gemini_api_async_offline deliver_offline fmt_def)

subsection \<open>The transcript\<close>







subsection \<open>The stages of a console turn\<close>



lemma play_turn_stages:
  "play_turn fuel E s c =
     (case append_scene E s c of
        (Inl ex, s1) \<Rightarrow> Some (Inl ex, s1)
      | (Inr u, s1) \<Rightarrow> illustrate fuel E s1)"
  by (simp add: play_turn_def append_scene_def Let_def split: prod.splits sum.splits)








subsection \<open>A session with a slow image service\<close>






lemma generate_image_stuck:
  "generate_image_with_stable_diffusion_console fuel stuck_image tr vp = None"
proof (induction fuel arbitrary: tr)
  case 0
  show ?case
    by (subst generate_image_with_stable_diffusion_console.simps)
      (simp add: post_checked_def stuck_image_def service_def loading_redirect_def
        loading_wait_time_def response_ok_def response_json_def loading_envelope_def floor_sample)
next
  case (Suc fuel)
  have key: "HUGGINGFACE_API_KEY stuck_image = ''h''" by (simp add: stuck_image_def service_def)
  have first: "post_checked stuck_image tr STABLE_DIFFUSION_API_URL [(''Authorization'', ''Bearer h'')]
      (JObj [(''inputs'', JStr vp)]) =
      (Inl (Some \<lparr>status_code = 302, body = loading_envelope\<rparr>), tr @ [image_request stuck_image vp])"
    by (simp add: post_checked_def stuck_image_def service_def image_request_def loading_redirect_def)
  have wait: "loading_wait_time stuck_image (Some \<lparr>status_code = 302, body = loading_envelope\<rparr>) = Some 20"
    by (simp add: loading_wait_time_def response_ok_def response_json_def loading_envelope_def
        floor_sample stuck_image_def service_def)
  show ?case
    by (subst generate_image_with_stable_diffusion_console.simps) (simp add: key first wait Suc.IH)
qed

text \<open>
  A console turn against an image service that never stops sending the envelope on a
  true response does not return, whatever the bound; the two lines of the turn are in
  the transcript all the same, since they are appended before the image is asked for.
\<close>

lemma play_turn_stuck:
  "play_turn fuel stuck_image s c = None"
  "story_history (snd (append_scene stuck_image s c)) =
     story_history s @ [''User chose: '' @ c, ''AI Scene: You see a door.'']"
proof -
  have c: "call_gemini_api_console stuck_image tr p =
      (Inr (JStr ''You see a door.''), tr @ [gemini_request stuck_image p])" for tr p
    by (simp add: call_gemini_api_console_def post_checked_def stuck_image_def service_def
      gemini_request_def GEMINI_API_URL_def STABLE_DIFFUSION_API_URL_def candidate_reply_def
      response_ok_def response_json_def first_candidate_text_def and_then_def)
  have v: "generate_visual_prompt stuck_image tr story =
      (Inr ''You see a door.'', tr @ [gemini_request stuck_image (visual_prompt_request stuck_image story)])"
    for tr story
    by (simp add: generate_visual_prompt_def c clean_prompt_def strip_def replace_char_def isspace_def)
  show "story_history (snd (append_scene stuck_image s c)) =
     story_history s @ [''User chose: '' @ c, ''AI Scene: You see a door.'']"
    by (simp add: append_scene_def Let_def c fmt_def)
  show "play_turn fuel stuck_image s c = None"
    by (simp add: play_turn_stages append_scene_def Let_def c illustrate_def v generate_image_stuck)
qed





subsection \<open>Choices\<close>

lemma upper_char_idem: "upper_char (upper_char c) = upper_char c"
  by (simp add: upper_char_def)

lemma upper_idem: "upper (upper l) = upper l"
  by (simp add: upper_def upper_char_idem)

lemma game_loop_upper: "game_loop fuel E s (l # ls) = game_loop fuel E s (upper l # ls)"
  by (cases "scene_is_text s") (simp_all add: game_loop_Cons game_loop_no_text upper_idem)

lemma game_loop_filter:
  "game_loop fuel E s ls =
   game_loop fuel E s (filter (\<lambda>l. upper l \<in> set [''A'', ''B'', ''QUIT'']) ls)"
proof (induction ls arbitrary: s)
  case Nil
  show ?case by simp
next
  case (Cons l ls)
  show ?case
  proof (cases "scene_is_text s")
    case False
    then show ?thesis by (simp add: game_loop_no_text)
  next
    case True
    then show ?thesis
      using Cons.IH
      by (auto simp: game_loop_Cons split: option.splits sum.splits prod.splits)
  qed
qed

lemma receive_loop_filter:
  "receive_loop E s fs = receive_loop E s (filter (\<lambda>f. \<not> passed_over f) fs)"
proof (induction fs arbitrary: s)
  case Nil
  show ?case by simp
next
  case (Cons f fs)
  show ?case
  proof (cases f)
    case None
    then show ?thesis by simp
  next
    case (Some data)
    then show ?thesis
      using Cons.IH
      by (auto split: sum.splits prod.splits)
  qed
qed

text \<open>
  C3. A line that is neither \<^verbatim>\<open>A\<close> nor \<^verbatim>\<open>B\<close> once uppercased leaves the console session
  as it is: on \<^verbatim>\<open>quit\<close> the loop ends with it, on anything else the loop goes on to the
  next line with it. A frame whose \<^verbatim>\<open>choice\<close> is neither \<^verbatim>\<open>A\<close> nor \<^verbatim>\<open>B\<close> leaves the push
  session as it is and the loop goes on to the next frame. The session holds the
  transcript and the trace, so no line was added and no request was made. Over a whole
  session: the loop ends as it would had those lines, or those frames, never come.
\<close>

theorem invalid_choice_ignored:
  "(upper l \<notin> set [''A'', ''B''] \<longrightarrow>
      (upper l \<noteq> ''QUIT'' \<longrightarrow> game_loop fuel E sc (l # ls) = game_loop fuel E sc ls) \<and>
      (scene_is_text sc \<longrightarrow>
         game_loop fuel E sc [l] = Some (if upper l = ''QUIT'' then Quit else End_of_input, sc) \<and>
         (upper l = ''QUIT'' \<longrightarrow> game_loop fuel E sc (l # ls) = Some (Quit, sc)))) \<and>
   game_loop fuel E sc ls =
     game_loop fuel E sc (filter (\<lambda>l. upper l \<in> set [''A'', ''B'', ''QUIT'']) ls) \<and>
   (\<forall>c. dict_get data ''choice'' JNull = Inr c \<and> c \<notin> set [JStr ''A'', JStr ''B''] \<longrightarrow>
      receive_loop E sp (Some data # fs) = receive_loop E sp fs \<and>
      receive_loop E sp [Some data] = (Disconnected, sp)) \<and>
   receive_loop E sp fs = receive_loop E sp (filter (\<lambda>f. \<not> passed_over f) fs)"
proof (intro conjI allI impI)
  assume "upper l \<notin> set [''A'', ''B'']" "upper l \<noteq> ''QUIT''"
  then show "game_loop fuel E sc (l # ls) = game_loop fuel E sc ls"
    by (cases "scene_is_text sc") (simp_all add: game_loop_Cons game_loop_no_text)
next
  assume "upper l \<notin> set [''A'', ''B'']" "scene_is_text sc"
  then show "game_loop fuel E sc [l] = Some (if upper l = ''QUIT'' then Quit else End_of_input, sc)"
    by (simp add: game_loop_Cons game_loop_Nil)
next
  assume "scene_is_text sc" "upper l = ''QUIT''"
  then show "game_loop fuel E sc (l # ls) = Some (Quit, sc)"
    by (simp add: game_loop_Cons)
next
  show "game_loop fuel E sc ls =
     game_loop fuel E sc (filter (\<lambda>l. upper l \<in> set [''A'', ''B'', ''QUIT'']) ls)"
    by (rule game_loop_filter)
next
  fix c
  assume "dict_get data ''choice'' JNull = Inr c \<and> c \<notin> set [JStr ''A'', JStr ''B'']"
  then show "receive_loop E sp (Some data # fs) = receive_loop E sp fs"
    "receive_loop E sp [Some data] = (Disconnected, sp)"
    by simp_all
next
  show "receive_loop E sp fs = receive_loop E sp (filter (\<lambda>f. \<not> passed_over f) fs)"
    by (rule receive_loop_filter)
qed

theorem invalid_choice_ignored_witness:
  "game_loop 0 offline
     \<lparr>story_history = [''The user's character is a knight.'', ''AI Scene: You stand at a gate.''],
      scene_text = JStr ''You stand at a gate.'', events = [], scene_counter = 0\<rparr>
     [''look around''] =
   Some (End_of_input,
     \<lparr>story_history = [''The user's character is a knight.'', ''AI Scene: You stand at a gate.''],
      scene_text = JStr ''You stand at a gate.'', events = [], scene_counter = 0\<rparr>) \<and>
   game_loop 0 offline
     \<lparr>story_history = [''The user's character is a knight.'', ''AI Scene: You stand at a gate.''],
      scene_text = JStr ''You stand at a gate.'', events = [], scene_counter = 0\<rparr>
     [''quit'', ''A''] =
   Some (Quit,
     \<lparr>story_history = [''The user's character is a knight.'', ''AI Scene: You stand at a gate.''],
      scene_text = JStr ''You stand at a gate.'', events = [], scene_counter = 0\<rparr>) \<and>
   receive_loop offline
     \<lparr>story_history = [''The user's character is a knight.'', ''AI Scene: You stand at a gate.''],
      scene_text = JStr ''You stand at a gate.'', events = []\<rparr>
     [Some (JObj [(''choice'', JStr ''C'')])] =
   (Disconnected,
     \<lparr>story_history = [''The user's character is a knight.'', ''AI Scene: You stand at a gate.''],
      scene_text = JStr ''You stand at a gate.'', events = []\<rparr>)"
proof -
  let ?h = "[''The user's character is a knight.'', ''AI Scene: You stand at a gate.'']"
  let ?sc = "\<lparr>story_history = ?h, scene_text = JStr ''You stand at a gate.'', events = [],
      scene_counter = 0\<rparr>"
  let ?sp = "\<lparr>story_history = ?h, scene_text = JStr ''You stand at a gate.'', events = []\<rparr>"
  have st: "scene_is_text ?sc" by (simp add: scene_is_text_def)
  have l: "upper ''look around'' \<notin> set [''A'', ''B'']" "upper ''look around'' \<noteq> ''QUIT''"
    by (simp_all add: upper_samples)
  have q: "upper ''quit'' \<notin> set [''A'', ''B'']" "upper ''quit'' = ''QUIT''"
    by (simp_all add: upper_samples)
  have c: "dict_get (JObj [(''choice'', JStr ''C'')]) ''choice'' JNull = Inr (JStr ''C'') \<and>
      JStr ''C'' \<notin> set [JStr ''A'', JStr ''B'']"
    by simp
  note a = invalid_choice_ignored [where l = "''look around''" and fuel = 0 and E = offline
      and sc = ?sc, THEN conjunct1, rule_format, OF l(1), THEN conjunct2, rule_format, OF st,
      THEN conjunct1]
  note b = invalid_choice_ignored [where l = "''quit''" and fuel = 0 and E = offline
      and sc = ?sc and ls = "[''A'']", THEN conjunct1, rule_format, OF q(1), THEN conjunct2,
      rule_format, OF st, THEN conjunct2, rule_format, OF q(2)]
  note d = invalid_choice_ignored [where E = offline and data = "JObj [(''choice'', JStr ''C'')]"
      and sp = ?sp and fs = "[]", THEN conjunct2, THEN conjunct2, THEN conjunct1, rule_format, OF c,
      THEN conjunct2]
  from a b d l(2) show ?thesis by simp
qed

text \<open>
  C10. The console loop looks at the uppercased line only: \<^verbatim>\<open>a\<close> and \<^verbatim>\<open>b\<close> play a turn
  as \<^verbatim>\<open>A\<close> and \<^verbatim>\<open>B\<close> do, and a line whose uppercase is \<^verbatim>\<open>QUIT\<close> ends the loop. The push
  loop compares the choice as it is: \<^verbatim>\<open>a\<close> and \<^verbatim>\<open>b\<close>, as every choice but \<^verbatim>\<open>A\<close> and \<^verbatim>\<open>B\<close>,
  are passed over with nothing said, and \<^verbatim>\<open>A\<close> and \<^verbatim>\<open>B\<close> play a turn.
\<close>

theorem choice_letter_case:
  "game_loop fuel E sc (l # ls) = game_loop fuel E sc (upper l # ls) \<and>
   game_loop fuel E sc (''a'' # ls) = game_loop fuel E sc (''A'' # ls) \<and>
   game_loop fuel E sc (''b'' # ls) = game_loop fuel E sc (''B'' # ls) \<and>
   (scene_is_text sc \<longrightarrow>
      (upper l \<in> set [''A'', ''B''] \<longrightarrow>
         game_loop fuel E sc (l # ls) =
           (case play_turn fuel E sc (upper l) of
              None \<Rightarrow> None
            | Some (Inl ex, s') \<Rightarrow> Some (Failed ex, s')
            | Some (Inr u, s') \<Rightarrow> game_loop fuel E s' ls)) \<and>
      (upper l = ''QUIT'' \<longrightarrow> game_loop fuel E sc (l # ls) = Some (Quit, sc))) \<and>
   receive_loop E sp (Some (JObj [(''choice'', JStr ''a'')]) # fs) = receive_loop E sp fs \<and>
   receive_loop E sp (Some (JObj [(''choice'', JStr ''b'')]) # fs) = receive_loop E sp fs \<and>
   (\<forall>c. dict_get data ''choice'' JNull = Inr c \<and> c \<noteq> JStr ''A'' \<and> c \<noteq> JStr ''B'' \<longrightarrow>
      receive_loop E sp (Some data # fs) = receive_loop E sp fs) \<and>
   (\<forall>c. dict_get data ''choice'' JNull = Inr c \<and> (c = JStr ''A'' \<or> c = JStr ''B'') \<longrightarrow>
      receive_loop E sp (Some data # fs) =
        (case play_turn_push E sp c of
           (Inl ex, s') \<Rightarrow> (Failed ex, s')
         | (Inr u, s') \<Rightarrow> receive_loop E s' fs))"
proof (intro conjI allI impI)
  show "game_loop fuel E sc (l # ls) = game_loop fuel E sc (upper l # ls)"
    by (rule game_loop_upper)
  show "game_loop fuel E sc (''a'' # ls) = game_loop fuel E sc (''A'' # ls)"
    using game_loop_upper [of fuel E sc "''a''" ls] by (simp add: upper_samples)
  show "game_loop fuel E sc (''b'' # ls) = game_loop fuel E sc (''B'' # ls)"
    using game_loop_upper [of fuel E sc "''b''" ls] by (simp add: upper_samples)
  show "receive_loop E sp (Some (JObj [(''choice'', JStr ''a'')]) # fs) = receive_loop E sp fs"
    by simp
  show "receive_loop E sp (Some (JObj [(''choice'', JStr ''b'')]) # fs) = receive_loop E sp fs"
    by simp
next
  assume "scene_is_text sc" "upper l \<in> set [''A'', ''B'']"
  then show "game_loop fuel E sc (l # ls) =
        (case play_turn fuel E sc (upper l) of
           None \<Rightarrow> None
         | Some (Inl ex, s') \<Rightarrow> Some (Failed ex, s')
         | Some (Inr u, s') \<Rightarrow> game_loop fuel E s' ls)"
    by (auto simp: game_loop_Cons)
next
  assume "scene_is_text sc" "upper l = ''QUIT''"
  then show "game_loop fuel E sc (l # ls) = Some (Quit, sc)" by (simp add: game_loop_Cons)
next
  fix c
  assume "dict_get data ''choice'' JNull = Inr c \<and> c \<noteq> JStr ''A'' \<and> c \<noteq> JStr ''B''"
  then show "receive_loop E sp (Some data # fs) = receive_loop E sp fs" by simp
next
  fix c
  assume "dict_get data ''choice'' JNull = Inr c \<and> (c = JStr ''A'' \<or> c = JStr ''B'')"
  then show "receive_loop E sp (Some data # fs) =
        (case play_turn_push E sp c of
           (Inl ex, s') \<Rightarrow> (Failed ex, s')
         | (Inr u, s') \<Rightarrow> receive_loop E s' fs)"
    by auto
qed

theorem choice_letter_case_witness:
  "map_option (\<lambda>(x, s). (x, story_history s))
     (game_loop 0 offline
        \<lparr>story_history = [''The user's character is a knight.'', ''AI Scene: You stand at a gate.''],
         scene_text = JStr ''You stand at a gate.'', events = [], scene_counter = 0\<rparr>
        [''a'', ''qUiT'']) =
     Some (Quit, [''The user's character is a knight.'', ''AI Scene: You stand at a gate.'',
        ''User chose: A'', ''AI Scene: Error: Could not connect to the AI.'']) \<and>
   (\<lambda>(x, s). (x, story_history s))
     (receive_loop offline
        \<lparr>story_history = [''The user's character is a knight.'', ''AI Scene: You stand at a gate.''],
         scene_text = JStr ''You stand at a gate.'', events = []\<rparr>
        [Some (JObj [(''choice'', JStr ''a'')]), Some (JObj [(''choice'', JStr ''quit'')]),
         Some (JObj [(''choice'', JStr ''B'')])]) =
     (Disconnected, [''The user's character is a knight.'', ''AI Scene: You stand at a gate.'',
        ''User chose: B'', ''AI Scene: Error: The AI storyteller is currently unavailable.''])"
proof -
  let ?h = "[''The user's character is a knight.'', ''AI Scene: You stand at a gate.'']"
  let ?sc = "\<lparr>story_history = ?h, scene_text = JStr ''You stand at a gate.'', events = [],
      scene_counter = 0\<rparr>"
  let ?sp = "\<lparr>story_history = ?h, scene_text = JStr ''You stand at a gate.'', events = []\<rparr>"
  have a: "upper ''a'' \<in> set [''A'', ''B'']" by (simp add: upper_samples)
  have q: "upper ''qUiT'' = ''QUIT''" by (simp add: upper_samples)
  have st: "scene_is_text ?sc" by (simp add: scene_is_text_def)
  note turn = choice_letter_case [where l = "''a''" and E = offline and ls = "[''qUiT'']" and fuel = 0
      and sc = ?sc, THEN conjunct2, THEN conjunct2, THEN conjunct2, THEN conjunct1, rule_format, OF st,
      THEN conjunct1, rule_format, OF a]
  have quit: "game_loop 0 offline s [''qUiT''] = Some (Quit, s)" if "scene_is_text s" for s
    using choice_letter_case [where l = "''qUiT''" and E = offline and ls = "[]" and fuel = 0
      and sc = s, THEN conjunct2, THEN conjunct2, THEN conjunct2, THEN conjunct1, rule_format, OF that,
      THEN conjunct2, rule_format, OF q] .
  have console: "map_option (\<lambda>(x, s). (x, story_history s)) (game_loop 0 offline ?sc [''a'', ''qUiT'']) =
      Some (Quit, ?h @ [''User chose: A'', ''AI Scene: Error: Could not connect to the AI.''])"
    by (simp add: turn upper_samples play_turn_offline quit scene_is_text_def)
  have q2: "dict_get (JObj [(''choice'', JStr ''quit'')]) ''choice'' JNull = Inr (JStr ''quit'') \<and>
      JStr ''quit'' \<noteq> JStr ''A'' \<and> JStr ''quit'' \<noteq> JStr ''B''"
    by simp
  have b: "dict_get (JObj [(''choice'', JStr ''B'')]) ''choice'' JNull = Inr (JStr ''B'') \<and>
      (JStr ''B'' = JStr ''A'' \<or> JStr ''B'' = JStr ''B'')"
    by simp
  note p = choice_letter_case [where E = offline and sp = ?sp]
  have push: "(\<lambda>(x, s). (x, story_history s))
     (receive_loop offline ?sp
        [Some (JObj [(''choice'', JStr ''a'')]), Some (JObj [(''choice'', JStr ''quit'')]),
         Some (JObj [(''choice'', JStr ''B'')])]) =
     (Disconnected, ?h @ [''User chose: B'', ''AI Scene: Error: The AI storyteller is currently unavailable.''])"
    by (simp only: p [THEN conjunct2, THEN conjunct2, THEN conjunct2, THEN conjunct2, THEN conjunct1]
        p [where data = "JObj [(''choice'', JStr ''quit'')]", THEN conjunct2, THEN conjunct2, THEN conjunct2,
          THEN conjunct2, THEN conjunct2, THEN conjunct2, THEN conjunct1, rule_format, OF q2]
        p [where data = "JObj [(''choice'', JStr ''B'')]" and fs = "[]", THEN conjunct2, THEN conjunct2,
          THEN conjunct2, THEN conjunct2, THEN conjunct2, THEN conjunct2, THEN conjunct2,
          rule_format, OF b]
        play_turn_push_offline)
      (simp add: fmt_def)
  from console push show ?thesis by simp
qed

subsection \<open>The default premise\<close>

lemma call_gemini_api_async_trace:
  "snd (call_gemini_api_async E tr p) = tr @ [gemini_request E p]"
  by (simp add: call_gemini_api_async_def call_gemini_api_push_def post_checked_def Let_def
      gemini_request_def split: post_result.splits option.splits sum.splits)

lemma generate_visual_prompt_async_trace:
  "snd (generate_visual_prompt_async E tr story) =
     tr @ [gemini_request E (visual_prompt_request_async E story)]"
  using call_gemini_api_async_trace [of E tr "visual_prompt_request_async E story"]
  by (auto simp: generate_visual_prompt_async_def split: prod.splits sum.splits json.splits)

lemma deliver_events: "prefix (events s) (events (snd (deliver E s)))"
proof -
  let ?tr0 = "events s @ [Send (JObj [(''type'', JStr ''story''), (''text'', scene_text s)])]"
  obtain r tr where g: "generate_visual_prompt_async E ?tr0 (scene_text s) = (r, tr)"
    by (cases "generate_visual_prompt_async E ?tr0 (scene_text s)")
  with generate_visual_prompt_async_trace [of E ?tr0 "scene_text s"]
  have tr: "prefix (events s) tr" by simp
  show ?thesis
  proof (cases r)
    case (Inl ex)
    with g tr show ?thesis by (simp add: deliver_def)
  next
    case (Inr vp)
    obtain i tr' where im: "generate_image_async E tr vp = (i, tr')"
      by (cases "generate_image_async E tr vp")
    with push_image_trace [of E tr vp] have "prefix tr tr'"
      by (auto simp: generate_image_async_def)
    with tr have "prefix (events s) tr'" by (rule prefix_order.trans)
    then have "prefix (events s) (tr' @ ys)" for ys by (rule prefix_prefix)
    with Inr g im \<open>prefix (events s) tr'\<close> show ?thesis
      by (auto simp: deliver_def split: sum.splits option.splits)
  qed
qed

lemma play_turn_push_events: "prefix (events s) (events (snd (play_turn_push E s c)))"
proof -
  let ?p = "next_prompt_push (story_history s @ [''User chose: '' @ fmt E c])"
  obtain r tr where g: "call_gemini_api_async E (events s) ?p = (r, tr)"
    by (cases "call_gemini_api_async E (events s) ?p")
  with call_gemini_api_async_trace [of E "events s" ?p] have tr: "prefix (events s) tr" by simp
  show ?thesis
  proof (cases r)
    case (Inl ex)
    with g tr show ?thesis by (simp add: play_turn_push_def Let_def)
  next
    case (Inr t)
    let ?s1 = "s\<lparr>story_history := story_history s @ [''User chose: '' @ fmt E c] @ [''AI Scene: '' @ fmt E t],
               scene_text := t, events := tr\<rparr>"
    have "prefix (events ?s1) (events (snd (deliver E ?s1)))" by (rule deliver_events)
    with tr have "prefix (events s) (events (snd (deliver E ?s1)))" by simp
    with Inr g show ?thesis by (simp add: play_turn_push_def Let_def)
  qed
qed

lemma receive_loop_events: "prefix (events s) (events (snd (receive_loop E s fs)))"
proof (induction fs arbitrary: s)
  case Nil
  show ?case by simp
next
  case (Cons f fs)
  obtain x s' where r: "receive_loop E s (f # fs) = (x, s')"
    by (cases "receive_loop E s (f # fs)")
  then have "prefix (events s) (events s')"
  proof (cases rule: receive_loop_cases)
    case 1
    then show ?thesis by simp
  next
    case (2 data ex)
    then show ?thesis by simp
  next
    case (3 data c)
    with Cons [of s] show ?thesis by simp
  next
    case (4 data c ex)
    with play_turn_push_events [of s E c] show ?thesis by simp
  next
    case (5 data c u s1)
    with play_turn_push_events [of s E c] Cons [of s1] show ?thesis by auto
  qed
  with r show ?case by simp
qed

lemma websocket_endpoint_events:
  assumes "dict_get initial_data ''idea'' (JStr ''a brave adventurer in a mysterious land'') = Inr idea"
  shows "take 2 (events (snd (websocket_endpoint E (Some initial_data # fs)))) =
     [Accept, gemini_request E (initial_prompt_push E idea)]"
proof -
  let ?p = "initial_prompt_push E idea"
  obtain r tr where g: "call_gemini_api_async E [Accept] ?p = (r, tr)"
    by (cases "call_gemini_api_async E [Accept] ?p")
  with call_gemini_api_async_trace [of E "[Accept]" ?p]
  have tr: "tr = [Accept, gemini_request E ?p]" by simp
  have "prefix tr (events (snd (websocket_endpoint E (Some initial_data # fs))))"
  proof (cases r)
    case (Inl ex)
    with g assms show ?thesis by (simp add: websocket_endpoint_def Let_def)
  next
    case (Inr t)
    let ?s1 = "\<lparr>story_history = [''The user's character is '' @ fmt E idea @ ''.''] @ [''AI Scene: '' @ fmt E t],
               scene_text = t, events = tr\<rparr>"
    obtain y s2 where d: "deliver E ?s1 = (y, s2)" by (cases "deliver E ?s1")
    with deliver_events [of ?s1 E] have p1: "prefix tr (events s2)" by simp
    show ?thesis
    proof (cases y)
      case (Inl ex)
      with Inr g assms d p1 show ?thesis by (simp add: websocket_endpoint_def Let_def)
    next
      case (Inr u)
      from receive_loop_events [of s2 E fs] p1
      have "prefix tr (events (snd (receive_loop E s2 fs)))" by (rule prefix_order.trans [rotated])
      with Inr \<open>r = Inr t\<close> g assms d show ?thesis
        by (simp add: websocket_endpoint_def Let_def split: prod.splits)
    qed
  qed
  with tr show ?thesis by (auto elim!: prefixE)
qed

text \<open>
  C9. When the first frame is an object with no \<^verbatim>\<open>idea\<close>, the push session runs as it
  would on the idea \<^verbatim>\<open>a brave adventurer in a mysterious land\<close>, whatever frames follow,
  none included: its transcript starts with the premise line of that idea, and the
  first thing it does after accepting the connection is the completion request for the
  opening scene of that idea.
\<close>

theorem default_premise:
  "map_of kvs ''idea'' = None \<longrightarrow>
     websocket_endpoint E (Some (JObj kvs) # frames) =
       websocket_endpoint E (Some (JObj [(''idea'', JStr ''a brave adventurer in a mysterious land'')]) # frames) \<and>
     take 1 (story_history (snd (websocket_endpoint E (Some (JObj kvs) # frames)))) =
       [''The user's character is a brave adventurer in a mysterious land.''] \<and>
     take 2 (events (snd (websocket_endpoint E (Some (JObj kvs) # frames)))) =
       [Accept, gemini_request E (initial_prompt_push E (JStr ''a brave adventurer in a mysterious land''))]"
proof (intro impI conjI)
  assume n: "map_of kvs ''idea'' = None"
  then have d: "dict_get (JObj kvs) ''idea'' (JStr ''a brave adventurer in a mysterious land'') =
      Inr (JStr ''a brave adventurer in a mysterious land'')"
    by simp
  show "websocket_endpoint E (Some (JObj kvs) # frames) =
       websocket_endpoint E (Some (JObj [(''idea'', JStr ''a brave adventurer in a mysterious land'')]) # frames)"
    using n by (simp add: websocket_endpoint_def)
  show "take 1 (story_history (snd (websocket_endpoint E (Some (JObj kvs) # frames)))) =
       [''The user's character is a brave adventurer in a mysterious land.'']"
    using websocket_endpoint_premise [OF d, of E frames] by (simp add: fmt_def)
  show "take 2 (events (snd (websocket_endpoint E (Some (JObj kvs) # frames)))) =
       [Accept, gemini_request E (initial_prompt_push E (JStr ''a brave adventurer in a mysterious land''))]"
    using d by (rule websocket_endpoint_events)
qed

theorem default_premise_witness:
  "websocket_endpoint offline [Some (JObj [(''name'', JStr ''Ann'')])] =
     websocket_endpoint offline [Some (JObj [(''idea'', JStr ''a brave adventurer in a mysterious land'')])] \<and>
   take 1 (story_history (snd (websocket_endpoint offline [Some (JObj [(''name'', JStr ''Ann'')])]))) =
     [''The user's character is a brave adventurer in a mysterious land.''] \<and>
   take 2 (events (snd (websocket_endpoint offline [Some (JObj [(''name'', JStr ''Ann'')])]))) =
     [Accept, gemini_request offline
        (initial_prompt_push offline (JStr ''a brave adventurer in a mysterious land''))]"
proof -
  have "map_of [(''name'', JStr ''Ann'')] ''idea'' = None" by simp
  then show ?thesis
    by (rule default_premise [of "[(''name'', JStr ''Ann'')]" offline "[]", rule_format])
qed

end
